theory Spec2Isabelle
  imports Main "HOL-Library.Sublist"
begin

section \<open>Go strings\<close>

text \<open>
  A Go \<^verbatim>\<open>string\<close> is a sequence of bytes, modelled as \<^typ>\<open>string\<close>. The functions of
  package \<^verbatim>\<open>strings\<close> that \<^verbatim>\<open>reference/remote.go\<close> calls are written out below. All the
  runes the file searches for (\<^verbatim>\<open>/\<close>, \<^verbatim>\<open>.\<close>, \<^verbatim>\<open>:\<close>) are ASCII, so searching for the rune
  is searching for the byte.
\<close>

definition IndexRune :: "string \<Rightarrow> char \<Rightarrow> int" where
  \<comment> \<open>\<^verbatim>\<open>strings.IndexRune(s, c)\<close>: the index of the first \<^verbatim>\<open>c\<close>, or \<^verbatim>\<open>-1\<close>.\<close>
  "IndexRune s c =
     (if c \<in> set s then int (length (takeWhile (\<lambda>x. x \<noteq> c) s)) else - 1)"

definition slice_to :: "string \<Rightarrow> int \<Rightarrow> string" where
  \<comment> \<open>\<^verbatim>\<open>s[:i]\<close>, used by the source only with \<^verbatim>\<open>0 <= i < len(s)\<close>.\<close>
  "slice_to s i = take (nat i) s"

definition slice_from :: "string \<Rightarrow> int \<Rightarrow> string" where
  \<comment> \<open>\<^verbatim>\<open>s[i:]\<close>, used by the source only with \<^verbatim>\<open>0 <= i <= len(s)\<close>.\<close>
  "slice_from s i = drop (nat i) s"

definition ContainsAny :: "string \<Rightarrow> string \<Rightarrow> bool" where
  "ContainsAny s chars = list_ex (\<lambda>c. c \<in> set chars) s"

definition ContainsRune :: "string \<Rightarrow> char \<Rightarrow> bool" where
  "ContainsRune s c = (c \<in> set s)"

definition HasPrefix :: "string \<Rightarrow> string \<Rightarrow> bool" where
  "HasPrefix s p = (length p \<le> length s \<and> take (length p) s = p)"

definition TrimPrefix :: "string \<Rightarrow> string \<Rightarrow> string" where
  "TrimPrefix s p = (if HasPrefix s p then drop (length p) s else s)"

definition isASCII :: "char \<Rightarrow> bool" where
  \<comment> \<open>a byte below \<^verbatim>\<open>utf8.RuneSelf\<close> (0x80)\<close>
  "isASCII c = (\<not> digit7 c)"

definition lowerASCII :: "char \<Rightarrow> char" where
  "lowerASCII c =
     (case map_of (zip ''ABCDEFGHIJKLMNOPQRSTUVWXYZ'' ''abcdefghijklmnopqrstuvwxyz'') c of
        Some d \<Rightarrow> d
      | None \<Rightarrow> c)"

definition ToLower :: "(string \<Rightarrow> string) \<Rightarrow> string \<Rightarrow> string" where
  \<comment> \<open>\<^verbatim>\<open>strings.ToLower\<close>. On a string of ASCII bytes it maps \<^verbatim>\<open>A-Z\<close> to \<^verbatim>\<open>a-z\<close> byte by
      byte. On any other string Go decodes UTF-8 and maps every rune through its Unicode
      tables; those tables are no part of this repository, so that mapping is the
      parameter \<open>unicodeMap\<close>.\<close>
  "ToLower unicodeMap s = (if list_all isASCII s then map lowerASCII s else unicodeMap s)"

section \<open>The values of \<^verbatim>\<open>reference/remote.go\<close>\<close>

definition DefaultTag :: string where
  "DefaultTag = ''latest''"

definition DefaultHostname :: string where
  "DefaultHostname = ''docker.io''"

definition LegacyDefaultHostname :: string where
  "LegacyDefaultHostname = ''index.docker.io''"

definition DefaultRepoPrefix :: string where
  "DefaultRepoPrefix = ''library/''"

text \<open>\<^verbatim>\<open>digest.Digest\<close> is a Go string type.\<close>

type_synonym digest = string

text \<open>
  The errors a caller can see. The first three are built in \<^verbatim>\<open>remote.go\<close>:
  \<^item> \<open>ErrParsingReference s\<close> is
    \<^verbatim>\<open>fmt.Errorf("Error parsing reference: %q is not a valid repository/tag", s)\<close>;
  \<^item> \<open>ErrNotLowercase\<close> is
    \<^verbatim>\<open>errors.New("invalid reference format: repository name must be lowercase")\<close>;
  \<^item> \<open>ErrHexName name\<close> is
    \<^verbatim>\<open>fmt.Errorf("Invalid repository name (%s), cannot specify 64-byte hexadecimal strings", name)\<close>.
  The others are the error kinds the specification lists for the functions that
  \<^verbatim>\<open>remote.go\<close> calls and does not define (\<^verbatim>\<open>ParseNamed\<close>, \<^verbatim>\<open>WithName\<close>, \<^verbatim>\<open>WithTag\<close>,
  \<^verbatim>\<open>WithDigest\<close>, package \<^verbatim>\<open>digest\<close>).
\<close>

datatype error =
    ErrParsingReference string
  | ErrNotLowercase
  | ErrHexName string
  | InvalidFormat
  | InvalidNameComponent
  | NamespaceTooLong
  | InvalidTag
  | InvalidDigest

text \<open>
  A value of the Go interface \<^verbatim>\<open>Named\<close>, as \<^verbatim>\<open>remote.go\<close> can observe it: its \<^verbatim>\<open>Name()\<close>,
  whether it is also a \<^verbatim>\<open>NamedTagged\<close> (then its \<^verbatim>\<open>Tag()\<close>) and whether it is also a
  \<^verbatim>\<open>Canonical\<close> (then its \<^verbatim>\<open>Digest()\<close>). The type assertions \<^verbatim>\<open>named.(NamedTagged)\<close> and
  \<^verbatim>\<open>named.(Canonical)\<close> succeed exactly when the field is not \<open>None\<close>.
\<close>

record named =
  Name :: string
  tag_of :: "string option"
  digest_of :: "digest option"

text \<open>
  What \<^verbatim>\<open>remote.go\<close> uses and does not define: the constructors and the parser of the
  same package (\<^verbatim>\<open>reference.go\<close>), and Go's Unicode case mapping. They are the fields of
  an environment that every function below takes as its parameter \<open>E\<close>.
\<close>

record env =
  unicodeToLower :: "string \<Rightarrow> string"
  ParseNamed :: "string \<Rightarrow> error + named"
  WithName :: "string \<Rightarrow> error + named"
  WithTag :: "named \<Rightarrow> string \<Rightarrow> error + named"
  WithDigest :: "named \<Rightarrow> digest \<Rightarrow> error + named"

text \<open>
  The three struct types of \<^verbatim>\<open>remote.go\<close>. \<^verbatim>\<open>remoteNamedRef\<close> embeds a \<^verbatim>\<open>Named\<close>;
  \<^verbatim>\<open>remoteTaggedRef\<close> and \<^verbatim>\<open>remoteCanonicalRef\<close> embed a \<^verbatim>\<open>remoteNamedRef\<close>.
\<close>

datatype remote =
    remoteNamedRef named
  | remoteTaggedRef named
  | remoteCanonicalRef named

fun Named :: "remote \<Rightarrow> named" where
  "Named (remoteNamedRef n) = n"
| "Named (remoteTaggedRef n) = n"
| "Named (remoteCanonicalRef n) = n"

text \<open>
  A struct of \<^verbatim>\<open>remote.go\<close> passed where a \<^verbatim>\<open>Named\<close> is expected, as the callee can observe
  it. Embedding the interface \<^verbatim>\<open>Named\<close> promotes \<^verbatim>\<open>Name()\<close> and \<^verbatim>\<open>String()\<close> only, so a
  \<^verbatim>\<open>remoteNamedRef\<close> is neither a \<^verbatim>\<open>NamedTagged\<close> nor a \<^verbatim>\<open>Canonical\<close>, whatever it embeds;
  \<^verbatim>\<open>remoteTaggedRef\<close> adds \<^verbatim>\<open>Tag()\<close> and \<^verbatim>\<open>remoteCanonicalRef\<close> adds \<^verbatim>\<open>Digest()\<close>.
\<close>

fun asNamed :: "remote \<Rightarrow> named" where
  "asNamed (remoteNamedRef n) = \<lparr>Name = Name n, tag_of = None, digest_of = None\<rparr>"
| "asNamed (remoteTaggedRef n) = \<lparr>Name = Name n, tag_of = tag_of n, digest_of = None\<rparr>"
| "asNamed (remoteCanonicalRef n) = \<lparr>Name = Name n, tag_of = None, digest_of = digest_of n\<rparr>"

section \<open>Hostname splitting and normalization\<close>

definition splitHostname :: "string \<Rightarrow> string \<times> string" where
  "splitHostname name =
     (let i = IndexRune name CHR ''/'';
          (hostname, remoteName) =
            (if i = - 1 \<or> (\<not> ContainsAny (slice_to name i) ''.:'' \<and> slice_to name i \<noteq> ''localhost'')
             then (DefaultHostname, name)
             else (slice_to name i, slice_from name (i + 1)));
          hostname = (if hostname = LegacyDefaultHostname then DefaultHostname else hostname);
          remoteName =
            (if hostname = DefaultHostname \<and> \<not> ContainsRune remoteName CHR ''/''
             then DefaultRepoPrefix @ remoteName
             else remoteName)
      in (hostname, remoteName))"

definition normalize_name :: "env \<Rightarrow> string \<Rightarrow> error + string" where
  "normalize_name E name =
     (let (host, remoteName) = splitHostname name in
      if ToLower (unicodeToLower E) remoteName \<noteq> remoteName then Inl ErrNotLowercase
      else if host = DefaultHostname then
        (if HasPrefix remoteName DefaultRepoPrefix
         then Inr (TrimPrefix remoteName DefaultRepoPrefix)
         else Inr remoteName)
      else Inr name)"

text \<open>
  Modelled from the spec: \<^verbatim>\<open>digest.ValidateHex\<close> is defined in package \<^verbatim>\<open>digest\<close>, which is
  not among the sources. The specification reserves names that are "exactly a
  64-hex-character string", "64 lowercase-hex characters exactly". \<open>None\<close> is Go's \<^verbatim>\<open>nil\<close>
  error: the string is such a hexadecimal identifier.
\<close>

definition ValidateHex :: "string \<Rightarrow> error option" where
  "ValidateHex s =
     (if length s = 64 \<and> list_all (\<lambda>c. c \<in> set ''0123456789abcdef'') s
      then None else Some InvalidDigest)"

definition validateName :: "string \<Rightarrow> error option" where
  "validateName name =
     (if ValidateHex name = None then Some (ErrHexName name) else None)"

section \<open>Remote references\<close>

definition WithRemoteName :: "env \<Rightarrow> string \<Rightarrow> error + remote" where
  "WithRemoteName E name =
     (case normalize_name E name of
        Inl err \<Rightarrow> Inl err
      | Inr name' \<Rightarrow>
          (case validateName name' of
             Some err \<Rightarrow> Inl err
           | None \<Rightarrow>
               (case WithName E name' of
                  Inl err \<Rightarrow> Inl err
                | Inr r \<Rightarrow> Inr (remoteNamedRef r))))"

definition WithRemoteTag :: "env \<Rightarrow> remote \<Rightarrow> string \<Rightarrow> error + remote" where
  "WithRemoteTag E name tag =
     (case WithTag E (asNamed name) tag of
        Inl err \<Rightarrow> Inl err
      | Inr r \<Rightarrow> Inr (remoteTaggedRef r))"

definition WithRemoteDigest :: "env \<Rightarrow> remote \<Rightarrow> digest \<Rightarrow> error + remote" where
  "WithRemoteDigest E name dgst =
     (case WithDigest E (asNamed name) dgst of
        Inl err \<Rightarrow> Inl err
      | Inr r \<Rightarrow> Inr (remoteCanonicalRef r))"

definition ParseRemoteNamed :: "env \<Rightarrow> string \<Rightarrow> error + remote" where
  "ParseRemoteNamed E s =
     (case ParseNamed E s of
        Inl err \<Rightarrow> Inl (ErrParsingReference s)
      | Inr named \<Rightarrow>
          (case WithRemoteName E (Name named) of
             Inl err \<Rightarrow> Inl err
           | Inr r \<Rightarrow>
               (case digest_of named of
                  Some dgst \<Rightarrow> WithRemoteDigest E r dgst
                | None \<Rightarrow>
                    (case tag_of named of
                       Some tag \<Rightarrow> WithRemoteTag E r tag
                     | None \<Rightarrow> Inr r))))"

text \<open>The methods of the three struct types.\<close>

definition RefName :: "remote \<Rightarrow> string" where
  \<comment> \<open>\<^verbatim>\<open>Name()\<close>, promoted from the embedded \<^verbatim>\<open>Named\<close>\<close>
  "RefName r = Name (Named r)"

definition FullName :: "remote \<Rightarrow> string" where
  "FullName r = (let (hostname, remoteName) = splitHostname (RefName r) in hostname @ ''/'' @ remoteName)"

definition Hostname :: "remote \<Rightarrow> string" where
  "Hostname r = fst (splitHostname (RefName r))"

definition RemoteName :: "remote \<Rightarrow> string" where
  "RemoteName r = snd (splitHostname (RefName r))"

text \<open>
  \<^verbatim>\<open>Tag()\<close> is a method of \<^verbatim>\<open>remoteTaggedRef\<close> only and \<^verbatim>\<open>Digest()\<close> of \<^verbatim>\<open>remoteCanonicalRef\<close>
  only; on another struct the method does not exist (\<open>None\<close>). Inside, the type assertion
  on the embedded \<^verbatim>\<open>Named\<close> panics when it fails, which is \<open>None\<close> as well.
\<close>

fun Tag :: "remote \<Rightarrow> string option" where
  "Tag (remoteTaggedRef n) = tag_of n"
| "Tag _ = None"

fun Digest :: "remote \<Rightarrow> digest option" where
  "Digest (remoteCanonicalRef n) = digest_of n"
| "Digest _ = None"

text \<open>
  The type assertions \<^verbatim>\<open>ref.(RemoteTagged)\<close> and \<^verbatim>\<open>ref.(RemoteCanonical)\<close>: the struct has
  the method \<^verbatim>\<open>Tag()\<close>, respectively \<^verbatim>\<open>Digest()\<close>.
\<close>

fun isRemoteTagged :: "remote \<Rightarrow> bool" where
  "isRemoteTagged (remoteTaggedRef n) = True"
| "isRemoteTagged _ = False"

fun isRemoteCanonical :: "remote \<Rightarrow> bool" where
  "isRemoteCanonical (remoteCanonicalRef n) = True"
| "isRemoteCanonical _ = False"

definition IsRemoteNameOnly :: "remote \<Rightarrow> bool" where
  "IsRemoteNameOnly ref =
     (if isRemoteTagged ref then False
      else if isRemoteCanonical ref then False
      else True)"

definition WithDefaultRemoteTag :: "env \<Rightarrow> remote \<Rightarrow> remote option" where
  \<comment> \<open>\<^verbatim>\<open>ref, _ = WithRemoteTag(ref, DefaultTag)\<close> overwrites \<^verbatim>\<open>ref\<close> with \<^verbatim>\<open>nil\<close> when the
      tag is refused; \<open>None\<close> is that \<^verbatim>\<open>nil\<close>.\<close>
  "WithDefaultRemoteTag E ref =
     (if IsRemoteNameOnly ref
      then (case WithRemoteTag E ref DefaultTag of Inl err \<Rightarrow> None | Inr r \<Rightarrow> Some r)
      else Some ref)"

section \<open>An environment that follows the specification's grammar\<close>

text \<open>
  The theorems below hold for every environment. To evaluate the functions on concrete
  inputs, the absent functions are given one instance, written from the grammar table of
  the specification (section 6): a path segment is \<^verbatim>\<open>[a-z0-9]+\<close> interleaved with \<^verbatim>\<open>.\<close>,
  \<^verbatim>\<open>_\<close>, \<^verbatim>\<open>__\<close> or a run of \<^verbatim>\<open>-\<close>; a name is one or more segments joined by \<^verbatim>\<open>/\<close>; a tag is
  \<^verbatim>\<open>[A-Za-z0-9_][A-Za-z0-9._-]*\<close> of bounded length; a digest is \<^verbatim>\<open>algorithm:hex\<close>. The
  specification names no number for the two length bounds; they are the parameters
  \<open>maxNamespace\<close> and \<open>maxTag\<close>.
\<close>

datatype seg_state = SegStart | SegAlnum | SegDot | SegUnder | SegUnder2 | SegHyphen

definition isLowerAlnum :: "char \<Rightarrow> bool" where
  "isLowerAlnum c = (c \<in> set ''abcdefghijklmnopqrstuvwxyz0123456789'')"

definition isWordChar :: "char \<Rightarrow> bool" where
  "isWordChar c =
     (c \<in> set ''ABCDEFGHIJKLMNOPQRSTUVWXYZabcdefghijklmnopqrstuvwxyz0123456789_'')"

definition isHexChar :: "char \<Rightarrow> bool" where
  "isHexChar c = (c \<in> set ''0123456789abcdef'')"

text \<open>
  Modelled from the spec: the name grammar of \<^verbatim>\<open>reference.go\<close>, which is not among the
  sources, as an automaton over the bytes of the name. \<open>SegStart\<close> expects the first
  \<^verbatim>\<open>[a-z0-9]\<close> of a segment; a separator is read only after an alphanumeric and must be
  followed by one; \<^verbatim>\<open>/\<close> ends a segment.
\<close>

fun name_step :: "seg_state \<Rightarrow> char \<Rightarrow> seg_state option" where
  "name_step st c =
     (if isLowerAlnum c then Some SegAlnum
      else if c = CHR ''.'' \<and> st = SegAlnum then Some SegDot
      else if c = CHR ''_'' \<and> st = SegAlnum then Some SegUnder
      else if c = CHR ''_'' \<and> st = SegUnder then Some SegUnder2
      else if c = CHR ''-'' \<and> (st = SegAlnum \<or> st = SegHyphen) then Some SegHyphen
      else if c = CHR ''/'' \<and> st = SegAlnum then Some SegStart
      else None)"

fun name_run :: "seg_state \<Rightarrow> string \<Rightarrow> bool" where
  "name_run st [] = (st = SegAlnum)"
| "name_run st (c # cs) =
     (case name_step st c of None \<Rightarrow> False | Some st' \<Rightarrow> name_run st' cs)"

text \<open>
  Modelled from the spec: \<^verbatim>\<open>validateNameGrammar\<close> (section 4.1) with the namespace length
  rule of section 6, "rejected if the portion before the first \<^verbatim>\<open>/\<close> exceeds a fixed
  maximum"; the validator of \<^verbatim>\<open>reference.go\<close> is not among the sources.
\<close>

definition validateNameGrammar :: "nat \<Rightarrow> string \<Rightarrow> error option" where
  "validateNameGrammar maxNamespace raw =
     (if \<not> name_run SegStart raw then Some InvalidNameComponent
      else if CHR ''/'' \<in> set raw
              \<and> maxNamespace < length (takeWhile (\<lambda>c. c \<noteq> CHR ''/'') raw)
      then Some NamespaceTooLong
      else None)"

text \<open>
  Modelled from the spec: \<^verbatim>\<open>validateTagGrammar\<close> (section 4.1); the validator of
  \<^verbatim>\<open>reference.go\<close> is not among the sources.
\<close>

definition validateTagGrammar :: "nat \<Rightarrow> string \<Rightarrow> error option" where
  "validateTagGrammar maxTag raw =
     (case raw of
        [] \<Rightarrow> Some InvalidTag
      | c # cs \<Rightarrow>
          if isWordChar c
             \<and> list_all (\<lambda>x. isWordChar x \<or> x = CHR ''.'' \<or> x = CHR ''-'') cs
             \<and> length raw \<le> maxTag
          then None else Some InvalidTag)"

text \<open>
  Modelled from the spec: the Digest Collaborator, which "validates \<^verbatim>\<open>algorithm:hex\<close>
  strings"; package \<^verbatim>\<open>digest\<close> is not among the sources.
\<close>

definition validateDigest :: "digest \<Rightarrow> error option" where
  "validateDigest d =
     (let alg = takeWhile (\<lambda>c. c \<noteq> CHR '':'') d;
          hex = drop (length alg + 1) d
      in if CHR '':'' \<in> set d \<and> alg \<noteq> [] \<and> list_all isLowerAlnum alg
            \<and> hex \<noteq> [] \<and> list_all isHexChar hex
         then None else Some InvalidDigest)"

definition cut :: "char \<Rightarrow> string \<Rightarrow> string \<times> string option" where
  \<comment> \<open>the part before the first \<open>c\<close>, and the part after it when there is one\<close>
  "cut c s =
     (if c \<in> set s
      then (takeWhile (\<lambda>x. x \<noteq> c) s,
            Some (drop (length (takeWhile (\<lambda>x. x \<noteq> c) s) + 1) s))
      else (s, None))"

text \<open>
  Modelled from the spec: \<^verbatim>\<open>ParseNamed\<close> of \<^verbatim>\<open>reference.go\<close>, which is not among the sources
  (section 4.5, step 1): "split \<^verbatim>\<open>s\<close> into a name portion and an optional \<^verbatim>\<open>@digest\<close> suffix
  and/or \<^verbatim>\<open>:tag\<close> suffix using the generic name/tag/digest grammar". The value keeps both
  suffixes when both are present.
\<close>

definition specParseNamed :: "nat \<Rightarrow> nat \<Rightarrow> string \<Rightarrow> error + named" where
  "specParseNamed maxNamespace maxTag s =
     (let (nameTag, dgst) = cut CHR ''@'' s;
          (name, tag) = cut CHR '':'' nameTag
      in case validateNameGrammar maxNamespace name of
           Some err \<Rightarrow> Inl err
         | None \<Rightarrow>
             (case (case tag of None \<Rightarrow> None | Some t \<Rightarrow> validateTagGrammar maxTag t) of
                Some err \<Rightarrow> Inl err
              | None \<Rightarrow>
                  (case (case dgst of None \<Rightarrow> None | Some d \<Rightarrow> validateDigest d) of
                     Some err \<Rightarrow> Inl err
                   | None \<Rightarrow> Inr \<lparr>Name = name, tag_of = tag, digest_of = dgst\<rparr>)))"

text \<open>
  Modelled from the spec: \<^verbatim>\<open>WithName\<close>, \<^verbatim>\<open>WithTag\<close> and \<^verbatim>\<open>WithDigest\<close> of \<^verbatim>\<open>reference.go\<close>, which
  is not among the sources (section 4.3): each validates its argument; the new tag or
  digest "replaces the previous variant rather than stacking".
\<close>

definition specWithName :: "nat \<Rightarrow> string \<Rightarrow> error + named" where
  "specWithName maxNamespace name =
     (case validateNameGrammar maxNamespace name of
        Some err \<Rightarrow> Inl err
      | None \<Rightarrow> Inr \<lparr>Name = name, tag_of = None, digest_of = None\<rparr>)"

definition specWithTag :: "nat \<Rightarrow> named \<Rightarrow> string \<Rightarrow> error + named" where
  "specWithTag maxTag ref tag =
     (case validateTagGrammar maxTag tag of
        Some err \<Rightarrow> Inl err
      | None \<Rightarrow> Inr \<lparr>Name = Name ref, tag_of = Some tag, digest_of = None\<rparr>)"

definition specWithDigest :: "named \<Rightarrow> digest \<Rightarrow> error + named" where
  "specWithDigest ref dgst =
     (case validateDigest dgst of
        Some err \<Rightarrow> Inl err
      | None \<Rightarrow> Inr \<lparr>Name = Name ref, tag_of = None, digest_of = Some dgst\<rparr>)"

text \<open>
  The instance. Its \<open>unicodeToLower\<close> leaves bytes outside ASCII as they are; every input
  evaluated below is ASCII, where \<open>ToLower\<close> never consults it.
\<close>

definition specEnv :: "nat \<Rightarrow> nat \<Rightarrow> env" where
  "specEnv maxNamespace maxTag =
     \<lparr>unicodeToLower = map lowerASCII,
      ParseNamed = specParseNamed maxNamespace maxTag,
      WithName = specWithName maxNamespace,
      WithTag = specWithTag maxTag,
      WithDigest = specWithDigest\<rparr>"


section \<open>Facts about the string functions\<close>

lemma IndexRune_none: "c \<notin> set s \<Longrightarrow> IndexRune s c = - 1"
  by (simp add: IndexRune_def)

lemma IndexRune_first: "c \<notin> set h \<Longrightarrow> IndexRune (h @ c # r) c = int (length h)"
  by (induction h) (auto simp: IndexRune_def)

lemma nat_len1: "nat (int n + 1) = Suc n"
  by simp

lemma ContainsAny_dot_colon:
  "ContainsAny h ''.:'' = (CHR ''.'' \<in> set h \<or> CHR '':'' \<in> set h)"
  by (auto simp: ContainsAny_def list_ex_iff)

lemma HasPrefix_iff: "HasPrefix s p = prefix p s"
proof
  assume "HasPrefix s p"
  then have "s = p @ drop (length p) s"
    by (metis HasPrefix_def append_take_drop_id)
  then show "prefix p s"
    by (metis prefixI)
next
  assume "prefix p s"
  then show "HasPrefix s p"
    by (auto simp: HasPrefix_def prefix_def)
qed

lemma TrimPrefix_append: "TrimPrefix (p @ s) p = s"
  by (simp add: TrimPrefix_def HasPrefix_def)

section \<open>\<^verbatim>\<open>splitHostname\<close>\<close>

lemma splitHostname_no_slash:
  "CHR ''/'' \<notin> set name \<Longrightarrow> splitHostname name = (''docker.io'', ''library/'' @ name)"
  by (simp add: splitHostname_def IndexRune_none DefaultHostname_def LegacyDefaultHostname_def
      DefaultRepoPrefix_def ContainsRune_def)

lemma splitHostname_slash:
  "CHR ''/'' \<notin> set h \<Longrightarrow>
   splitHostname (h @ CHR ''/'' # r) =
     (if CHR ''.'' \<in> set h \<or> CHR '':'' \<in> set h \<or> h = ''localhost''
      then (if h = ''index.docker.io'' \<or> h = ''docker.io''
            then (''docker.io'', if CHR ''/'' \<in> set r then r else ''library/'' @ r)
            else (h, r))
      else (''docker.io'', h @ CHR ''/'' # r))"
  by (auto simp add: splitHostname_def IndexRune_first slice_to_def slice_from_def
      ContainsAny_dot_colon DefaultHostname_def LegacyDefaultHostname_def
      DefaultRepoPrefix_def ContainsRune_def Let_def nat_len1)

text \<open>
  Claim C2. Every name either has no \<^verbatim>\<open>/\<close> or is \<open>h\<close>, \<^verbatim>\<open>/\<close>, \<open>r\<close> with no \<^verbatim>\<open>/\<close> in \<open>h\<close>, so the
  three cases cover every input. \<^verbatim>\<open>splitHostname\<close> takes the part \<open>h\<close> before the first \<^verbatim>\<open>/\<close>
  as the hostname exactly when \<open>h\<close> contains \<^verbatim>\<open>.\<close> or \<^verbatim>\<open>:\<close> or is \<^verbatim>\<open>localhost\<close>; otherwise, and
  when the name has no \<^verbatim>\<open>/\<close> at all, the hostname is \<^verbatim>\<open>docker.io\<close> and the whole input is the
  repository path. The hostname \<^verbatim>\<open>index.docker.io\<close> is replaced by \<^verbatim>\<open>docker.io\<close>. When the
  resulting hostname is \<^verbatim>\<open>docker.io\<close> and the repository path has no \<^verbatim>\<open>/\<close>, the path gets
  the prefix \<^verbatim>\<open>library/\<close>.
\<close>

theorem splitHostname_rule:
  "(CHR ''/'' \<notin> set name \<longrightarrow> splitHostname name = (''docker.io'', ''library/'' @ name)) \<and>
   (CHR ''/'' \<notin> set h \<and> (CHR ''.'' \<in> set h \<or> CHR '':'' \<in> set h \<or> h = ''localhost'') \<longrightarrow>
      splitHostname (h @ ''/'' @ r) =
        (let host = (if h = ''index.docker.io'' then ''docker.io'' else h)
         in (host, if host = ''docker.io'' \<and> CHR ''/'' \<notin> set r then ''library/'' @ r else r))) \<and>
   (CHR ''/'' \<notin> set h \<and> \<not> (CHR ''.'' \<in> set h \<or> CHR '':'' \<in> set h \<or> h = ''localhost'') \<longrightarrow>
      splitHostname (h @ ''/'' @ r) = (''docker.io'', h @ ''/'' @ r))"
proof (intro conjI impI)
  assume "CHR ''/'' \<notin> set name"
  then show "splitHostname name = (''docker.io'', ''library/'' @ name)"
    by (rule splitHostname_no_slash)
next
  assume "CHR ''/'' \<notin> set h \<and> (CHR ''.'' \<in> set h \<or> CHR '':'' \<in> set h \<or> h = ''localhost'')"
  then show "splitHostname (h @ ''/'' @ r) =
        (let host = (if h = ''index.docker.io'' then ''docker.io'' else h)
         in (host, if host = ''docker.io'' \<and> CHR ''/'' \<notin> set r then ''library/'' @ r else r))"
    by (auto simp: splitHostname_slash Let_def)
next
  assume "CHR ''/'' \<notin> set h \<and> \<not> (CHR ''.'' \<in> set h \<or> CHR '':'' \<in> set h \<or> h = ''localhost'')"
  then show "splitHostname (h @ ''/'' @ r) = (''docker.io'', h @ ''/'' @ r)"
    by (simp add: splitHostname_slash)
qed

theorem splitHostname_rule_witness:
  "splitHostname ''ubuntu'' = (''docker.io'', ''library/ubuntu'') \<and>
   splitHostname ''index.docker.io/ubuntu'' = (''docker.io'', ''library/ubuntu'') \<and>
   splitHostname ''localhost/ubuntu'' = (''localhost'', ''ubuntu'') \<and>
   splitHostname ''127.0.0.1:8000/private/moonbase'' = (''127.0.0.1:8000'', ''private/moonbase'') \<and>
   splitHostname ''fooo/bar'' = (''docker.io'', ''fooo/bar'')"
  using splitHostname_rule [of "''ubuntu''" "''index.docker.io''" "''ubuntu''"]
    splitHostname_rule [of "''ubuntu''" "''localhost''" "''ubuntu''"]
    splitHostname_rule [of "''ubuntu''" "''127.0.0.1:8000''" "''private/moonbase''"]
    splitHostname_rule [of "''ubuntu''" "''fooo''" "''bar''"]
  by simp

section \<open>\<^verbatim>\<open>normalize\<close>\<close>

text \<open>
  Claim C3. With \<open>(host, path)\<close> the result of \<^verbatim>\<open>splitHostname\<close>: \<^verbatim>\<open>normalize\<close> fails when
  \<^verbatim>\<open>strings.ToLower(path)\<close> differs from \<open>path\<close>, and nothing is lowercased on the way; when
  the host is \<^verbatim>\<open>docker.io\<close> it returns the path without its prefix \<^verbatim>\<open>library/\<close> if the path
  starts with it and the path itself otherwise; for any other host it returns the input.
\<close>

theorem normalize_name_rule:
  assumes "splitHostname name = (host, path)"
  shows "(ToLower (unicodeToLower E) path \<noteq> path \<longrightarrow> normalize_name E name = Inl ErrNotLowercase) \<and>
         (ToLower (unicodeToLower E) path = path \<and> host = ''docker.io'' \<longrightarrow>
            (\<forall>rest. path = ''library/'' @ rest \<longrightarrow> normalize_name E name = Inr rest) \<and>
            (\<not> prefix ''library/'' path \<longrightarrow> normalize_name E name = Inr path)) \<and>
         (ToLower (unicodeToLower E) path = path \<and> host \<noteq> ''docker.io'' \<longrightarrow>
            normalize_name E name = Inr name)"
proof (intro conjI impI allI)
  assume "ToLower (unicodeToLower E) path \<noteq> path"
  with assms show "normalize_name E name = Inl ErrNotLowercase"
    by (simp add: normalize_name_def)
next
  fix rest
  assume "ToLower (unicodeToLower E) path = path \<and> host = ''docker.io''"
    and "path = ''library/'' @ rest"
  with assms show "normalize_name E name = Inr rest"
    using TrimPrefix_append [of "''library/''" rest]
    by (simp add: normalize_name_def DefaultHostname_def DefaultRepoPrefix_def HasPrefix_def)
next
  assume "ToLower (unicodeToLower E) path = path \<and> host = ''docker.io''"
    and "\<not> prefix ''library/'' path"
  with assms show "normalize_name E name = Inr path"
    by (simp add: normalize_name_def DefaultHostname_def DefaultRepoPrefix_def HasPrefix_iff)
next
  assume "ToLower (unicodeToLower E) path = path \<and> host \<noteq> ''docker.io''"
  with assms show "normalize_name E name = Inr name"
    by (simp add: normalize_name_def DefaultHostname_def)
qed

theorem normalize_name_rule_witness:
  "splitHostname ''docker.io/library/ubuntu'' = (''docker.io'', ''library/ubuntu'') \<and>
   normalize_name (specEnv 255 128) ''docker.io/library/ubuntu'' = Inr ''ubuntu'' \<and>
   splitHostname ''index.docker.io/fooo/bar'' = (''docker.io'', ''fooo/bar'') \<and>
   normalize_name (specEnv 255 128) ''index.docker.io/fooo/bar'' = Inr ''fooo/bar'' \<and>
   splitHostname ''example.com/private/moonbase'' = (''example.com'', ''private/moonbase'') \<and>
   normalize_name (specEnv 255 128) ''example.com/private/moonbase''
     = Inr ''example.com/private/moonbase'' \<and>
   splitHostname ''docker/Docker'' = (''docker.io'', ''docker/Docker'') \<and>
   normalize_name (specEnv 255 128) ''docker/Docker'' = Inl ErrNotLowercase"
proof -
  have s1: "splitHostname ''docker.io/library/ubuntu'' = (''docker.io'', ''library/ubuntu'')"
    using splitHostname_slash [of "''docker.io''" "''library/ubuntu''"] by simp
  have s2: "splitHostname ''index.docker.io/fooo/bar'' = (''docker.io'', ''fooo/bar'')"
    using splitHostname_slash [of "''index.docker.io''" "''fooo/bar''"] by simp
  have s3: "splitHostname ''example.com/private/moonbase'' = (''example.com'', ''private/moonbase'')"
    using splitHostname_slash [of "''example.com''" "''private/moonbase''"] by simp
  have s4: "splitHostname ''docker/Docker'' = (''docker.io'', ''docker/Docker'')"
    using splitHostname_slash [of "''docker''" "''Docker''"] by simp
  have l1: "ToLower (unicodeToLower (specEnv 255 128)) ''library/ubuntu'' = ''library/ubuntu''"
    by (simp add: ToLower_def isASCII_def lowerASCII_def)
  have l2: "ToLower (unicodeToLower (specEnv 255 128)) ''fooo/bar'' = ''fooo/bar''"
    by (simp add: ToLower_def isASCII_def lowerASCII_def)
  have l3: "ToLower (unicodeToLower (specEnv 255 128)) ''private/moonbase'' = ''private/moonbase''"
    by (simp add: ToLower_def isASCII_def lowerASCII_def)
  have l4: "ToLower (unicodeToLower (specEnv 255 128)) ''docker/Docker'' \<noteq> ''docker/Docker''"
    by (simp add: ToLower_def isASCII_def lowerASCII_def)
  show ?thesis
    using normalize_name_rule [OF s1, of "specEnv 255 128"]
      normalize_name_rule [OF s2, of "specEnv 255 128"]
      normalize_name_rule [OF s3, of "specEnv 255 128"]
      normalize_name_rule [OF s4, of "specEnv 255 128"]
      s1 s2 s3 s4 l1 l2 l3 l4
    by simp
qed



text \<open>
  Claim C10. On the empty string \<^verbatim>\<open>splitHostname\<close> returns the default hostname and the
  path \<^verbatim>\<open>library/\<close>, \<^verbatim>\<open>normalize\<close> strips that prefix again and returns the empty string, and
  \<^verbatim>\<open>validateName\<close> accepts it: in \<^verbatim>\<open>WithRemoteName\<close> an empty name reaches \<^verbatim>\<open>WithName\<close>, so no
  function of this file rejects it.
\<close>

theorem normalize_name_empty:
  "splitHostname [] = (''docker.io'', ''library/'') \<and>
   normalize_name E [] = Inr [] \<and>
   validateName [] = None \<and>
   WithRemoteName E [] =
     (case WithName E [] of Inl err \<Rightarrow> Inl err | Inr r \<Rightarrow> Inr (remoteNamedRef r))"
proof -
  have s: "splitHostname [] = (''docker.io'', ''library/'')"
    using splitHostname_no_slash [of "[]"] by simp
  have l: "ToLower (unicodeToLower E) ''library/'' = ''library/''"
    by (simp add: ToLower_def isASCII_def lowerASCII_def)
  have n: "normalize_name E [] = Inr []"
    using s l by (simp add: normalize_name_def DefaultHostname_def DefaultRepoPrefix_def
        HasPrefix_def TrimPrefix_def)
  have v: "validateName [] = None"
    by (simp add: validateName_def ValidateHex_def)
  show ?thesis
    using s n v by (simp add: WithRemoteName_def)
qed

section \<open>\<^verbatim>\<open>validateName\<close>: hexadecimal names\<close>

lemma hex_chars_all:
  "list_all (\<lambda>c. isASCII c \<and> lowerASCII c = c \<and> c \<noteq> CHR ''/'') ''0123456789abcdef''"
  by (simp add: isASCII_def lowerASCII_def)

lemma hex_ascii_lower:
  "c \<in> set ''0123456789abcdef'' \<Longrightarrow> isASCII c \<and> lowerASCII c = c \<and> c \<noteq> CHR ''/''"
  using hex_chars_all unfolding list_all_iff by blast

lemma ToLower_library_hex:
  assumes "list_all (\<lambda>c. c \<in> set ''0123456789abcdef'') h"
  shows "ToLower U (''library/'' @ h) = ''library/'' @ h"
proof -
  have a: "list_all isASCII h"
    using assms hex_ascii_lower by (simp add: list_all_iff)
  have l: "map lowerASCII h = h"
  proof (rule map_idI)
    fix c assume "c \<in> set h"
    with assms have "c \<in> set ''0123456789abcdef''"
      by (simp add: list_all_iff)
    then show "lowerASCII c = c"
      using hex_ascii_lower by blast
  qed
  have "list_all isASCII (''library/'' @ h)"
    using a by (simp add: isASCII_def)
  moreover have "map lowerASCII (''library/'' @ h) = ''library/'' @ h"
    using l by (simp add: lowerASCII_def)
  ultimately show ?thesis
    by (simp add: ToLower_def)
qed

lemma normalize_name_library_hex:
  assumes "list_all (\<lambda>c. c \<in> set ''0123456789abcdef'') h"
    and "splitHostname name = (''docker.io'', ''library/'' @ h)"
  shows "normalize_name E name = Inr h"
  using assms(2) ToLower_library_hex [OF assms(1), of "unicodeToLower E"]
    TrimPrefix_append [of "''library/''" h]
  by (simp add: normalize_name_def DefaultHostname_def DefaultRepoPrefix_def HasPrefix_def)

lemma WithRemoteName_hex:
  assumes "length h = 64" and "list_all (\<lambda>c. c \<in> set ''0123456789abcdef'') h"
    and "normalize_name E name = Inr h"
  shows "WithRemoteName E name = Inl (ErrHexName h)"
  using assms by (simp add: WithRemoteName_def validateName_def ValidateHex_def)

text \<open>
  Claim C6. For every string \<open>h\<close> of 64 lowercase hexadecimal characters,
  \<^verbatim>\<open>WithRemoteName\<close> fails with the error of \<^verbatim>\<open>validateName\<close>, carrying \<open>h\<close>, whether \<open>h\<close> is
  given bare or behind the default namespace or a default hostname (all six spellings that
  normalize to \<open>h\<close>); and \<^verbatim>\<open>ParseRemoteNamed\<close> fails the same way on an input whose parsed name
  is one of them.
\<close>

theorem hex_name_rejected:
  assumes "length h = 64" and "list_all (\<lambda>c. c \<in> set ''0123456789abcdef'') h"
  shows "WithRemoteName E h = Inl (ErrHexName h) \<and>
         WithRemoteName E (''library/'' @ h) = Inl (ErrHexName h) \<and>
         WithRemoteName E (''docker.io/'' @ h) = Inl (ErrHexName h) \<and>
         WithRemoteName E (''docker.io/library/'' @ h) = Inl (ErrHexName h) \<and>
         WithRemoteName E (''index.docker.io/'' @ h) = Inl (ErrHexName h) \<and>
         WithRemoteName E (''index.docker.io/library/'' @ h) = Inl (ErrHexName h) \<and>
         (\<forall>s nm. ParseNamed E s = Inr nm \<and>
            Name nm \<in> {h, ''library/'' @ h, ''docker.io/'' @ h, ''docker.io/library/'' @ h,
                        ''index.docker.io/'' @ h, ''index.docker.io/library/'' @ h} \<longrightarrow>
            ParseRemoteNamed E s = Inl (ErrHexName h))"
proof -
  have noslash: "CHR ''/'' \<notin> set h"
    using assms(2) by (auto simp: list_all_iff dest: hex_ascii_lower)
  have s0: "splitHostname h = (''docker.io'', ''library/'' @ h)"
    using noslash by (rule splitHostname_no_slash)
  have s1: "splitHostname (''library/'' @ h) = (''docker.io'', ''library/'' @ h)"
    using splitHostname_slash [of "''library''" h] by simp
  have s2: "splitHostname (''docker.io/'' @ h) = (''docker.io'', ''library/'' @ h)"
    using splitHostname_slash [of "''docker.io''" h] noslash by simp
  have s3: "splitHostname (''docker.io/library/'' @ h) = (''docker.io'', ''library/'' @ h)"
    using splitHostname_slash [of "''docker.io''" "''library/'' @ h"] by simp
  have s4: "splitHostname (''index.docker.io/'' @ h) = (''docker.io'', ''library/'' @ h)"
    using splitHostname_slash [of "''index.docker.io''" h] noslash by simp
  have s5: "splitHostname (''index.docker.io/library/'' @ h) = (''docker.io'', ''library/'' @ h)"
    using splitHostname_slash [of "''index.docker.io''" "''library/'' @ h"] by simp
  note n = normalize_name_library_hex [OF assms(2)]
  note w = WithRemoteName_hex [OF assms]
  have w0: "WithRemoteName E h = Inl (ErrHexName h)" by (rule w [OF n [OF s0]])
  have w1: "WithRemoteName E (''library/'' @ h) = Inl (ErrHexName h)" by (rule w [OF n [OF s1]])
  have w2: "WithRemoteName E (''docker.io/'' @ h) = Inl (ErrHexName h)" by (rule w [OF n [OF s2]])
  have w3: "WithRemoteName E (''docker.io/library/'' @ h) = Inl (ErrHexName h)"
    by (rule w [OF n [OF s3]])
  have w4: "WithRemoteName E (''index.docker.io/'' @ h) = Inl (ErrHexName h)"
    by (rule w [OF n [OF s4]])
  have w5: "WithRemoteName E (''index.docker.io/library/'' @ h) = Inl (ErrHexName h)"
    by (rule w [OF n [OF s5]])
  have p: "ParseRemoteNamed E s = Inl (ErrHexName h)"
    if "ParseNamed E s = Inr nm" and "WithRemoteName E (Name nm) = Inl (ErrHexName h)" for s nm
    using that by (simp add: ParseRemoteNamed_def)
  have q: "ParseRemoteNamed E s = Inl (ErrHexName h)"
    if "ParseNamed E s = Inr nm \<and>
        Name nm \<in> {h, ''library/'' @ h, ''docker.io/'' @ h, ''docker.io/library/'' @ h,
                    ''index.docker.io/'' @ h, ''index.docker.io/library/'' @ h}" for s nm
  proof -
    from that have "WithRemoteName E (Name nm) = Inl (ErrHexName h)"
      using w0 w1 w2 w3 w4 w5 by (elim conjE insertE emptyE) (simp_all only:)
    with that show ?thesis
      using p by blast
  qed
  from q have "\<forall>s nm. ParseNamed E s = Inr nm \<and>
            Name nm \<in> {h, ''library/'' @ h, ''docker.io/'' @ h, ''docker.io/library/'' @ h,
                        ''index.docker.io/'' @ h, ''index.docker.io/library/'' @ h} \<longrightarrow>
            ParseRemoteNamed E s = Inl (ErrHexName h)"
    by blast
  with w0 w1 w2 w3 w4 w5 show ?thesis
    by (intro conjI)
qed

theorem hex_name_rejected_witness:
  "length ''1a3f5e7d9c1b3a5f7e9d1c3b5a7f9e1d3c5b7a9f1e3d5d7c9b1a3f5e7d9c1b3a'' = 64 \<and>
   WithRemoteName (specEnv 255 128)
       ''1a3f5e7d9c1b3a5f7e9d1c3b5a7f9e1d3c5b7a9f1e3d5d7c9b1a3f5e7d9c1b3a''
     = Inl (ErrHexName ''1a3f5e7d9c1b3a5f7e9d1c3b5a7f9e1d3c5b7a9f1e3d5d7c9b1a3f5e7d9c1b3a'') \<and>
   WithRemoteName (specEnv 255 128)
       ''docker.io/1a3f5e7d9c1b3a5f7e9d1c3b5a7f9e1d3c5b7a9f1e3d5d7c9b1a3f5e7d9c1b3a''
     = Inl (ErrHexName ''1a3f5e7d9c1b3a5f7e9d1c3b5a7f9e1d3c5b7a9f1e3d5d7c9b1a3f5e7d9c1b3a'') \<and>
   ParseNamed (specEnv 255 128)
       ''docker.io/1a3f5e7d9c1b3a5f7e9d1c3b5a7f9e1d3c5b7a9f1e3d5d7c9b1a3f5e7d9c1b3a''
     = Inr \<lparr>Name = ''docker.io/1a3f5e7d9c1b3a5f7e9d1c3b5a7f9e1d3c5b7a9f1e3d5d7c9b1a3f5e7d9c1b3a'',
            tag_of = None, digest_of = None\<rparr> \<and>
   ParseRemoteNamed (specEnv 255 128)
       ''docker.io/1a3f5e7d9c1b3a5f7e9d1c3b5a7f9e1d3c5b7a9f1e3d5d7c9b1a3f5e7d9c1b3a''
     = Inl (ErrHexName ''1a3f5e7d9c1b3a5f7e9d1c3b5a7f9e1d3c5b7a9f1e3d5d7c9b1a3f5e7d9c1b3a'')"
proof -
  let ?h = "''1a3f5e7d9c1b3a5f7e9d1c3b5a7f9e1d3c5b7a9f1e3d5d7c9b1a3f5e7d9c1b3a''"
  have len: "length ?h = 64" by simp
  have hex: "list_all (\<lambda>c. c \<in> set ''0123456789abcdef'') ?h" by simp
  have parse: "ParseNamed (specEnv 255 128) (''docker.io/'' @ ?h)
      = Inr \<lparr>Name = ''docker.io/'' @ ?h, tag_of = None, digest_of = None\<rparr>"
    by (simp add: specEnv_def specParseNamed_def cut_def validateNameGrammar_def isLowerAlnum_def)
  note r = hex_name_rejected [OF len hex, of "specEnv 255 128"]
  have w0: "WithRemoteName (specEnv 255 128) ?h = Inl (ErrHexName ?h)"
    using r by (rule conjunct1)
  have w2: "WithRemoteName (specEnv 255 128) (''docker.io/'' @ ?h) = Inl (ErrHexName ?h)"
    using r by (elim conjE)
  have "ParseNamed (specEnv 255 128) (''docker.io/'' @ ?h)
          = Inr \<lparr>Name = ''docker.io/'' @ ?h, tag_of = None, digest_of = None\<rparr> \<and>
        Name \<lparr>Name = ''docker.io/'' @ ?h, tag_of = None, digest_of = None\<rparr>
          \<in> {?h, ''library/'' @ ?h, ''docker.io/'' @ ?h, ''docker.io/library/'' @ ?h,
              ''index.docker.io/'' @ ?h, ''index.docker.io/library/'' @ ?h}"
    using parse by (simp only: named.select_convs insert_iff simp_thms)
  with r have pr: "ParseRemoteNamed (specEnv 255 128) (''docker.io/'' @ ?h) = Inl (ErrHexName ?h)"
    by blast
  show ?thesis
    using len w0 w2 parse pr by (simp only: append.simps simp_thms)
qed

section \<open>\<^verbatim>\<open>ParseRemoteNamed\<close>\<close>

text \<open>
  Claim C5. When the parsed input carries both a tag and a digest, \<^verbatim>\<open>ParseRemoteNamed\<close> asks
  for the digest first: with the name accepted by \<^verbatim>\<open>WithRemoteName\<close> and the digest by
  \<^verbatim>\<open>WithDigest\<close>, it returns the \<^verbatim>\<open>remoteCanonicalRef\<close> built from that digest, whose
  \<^verbatim>\<open>Digest()\<close> is the digest of the input, which is no \<^verbatim>\<open>RemoteTagged\<close> and has no \<^verbatim>\<open>Tag()\<close>.
  The tag is passed to no constructor. Whenever the call succeeds on such an input, the
  result is canonical and not tagged.
\<close>

theorem ParseRemoteNamed_digest_wins:
  assumes "ParseNamed E s = Inr nm" and "tag_of nm = Some t" and "digest_of nm = Some d"
    and "WithRemoteName E (Name nm) = Inr r0"
    and "WithDigest E (asNamed r0) d = Inr c" and "digest_of c = Some d"
  shows "ParseRemoteNamed E s = Inr (remoteCanonicalRef c) \<and>
         Digest (remoteCanonicalRef c) = Some d \<and>
         isRemoteCanonical (remoteCanonicalRef c) \<and>
         \<not> isRemoteTagged (remoteCanonicalRef c) \<and>
         Tag (remoteCanonicalRef c) = None \<and>
         (\<forall>r. ParseRemoteNamed E s = Inr r \<longrightarrow> isRemoteCanonical r \<and> \<not> isRemoteTagged r)"
proof -
  have "ParseRemoteNamed E s = Inr (remoteCanonicalRef c)"
    using assms(1,3,4,5) by (simp add: ParseRemoteNamed_def WithRemoteDigest_def)
  then show ?thesis
    using assms(6) by simp
qed

theorem ParseRemoteNamed_digest_wins_witness:
  "ParseNamed (specEnv 255 128) ''busybox:latest@sha256:86e0e091d0da6bde2456dbb48306f3956bbeb2eae1b5b9a43045843f69fe4aaa''
     = Inr \<lparr>Name = ''busybox'', tag_of = Some ''latest'',
            digest_of = Some ''sha256:86e0e091d0da6bde2456dbb48306f3956bbeb2eae1b5b9a43045843f69fe4aaa''\<rparr> \<and>
   WithRemoteName (specEnv 255 128) ''busybox''
     = Inr (remoteNamedRef \<lparr>Name = ''busybox'', tag_of = None, digest_of = None\<rparr>) \<and>
   ParseRemoteNamed (specEnv 255 128) ''busybox:latest@sha256:86e0e091d0da6bde2456dbb48306f3956bbeb2eae1b5b9a43045843f69fe4aaa''
     = Inr (remoteCanonicalRef \<lparr>Name = ''busybox'', tag_of = None,
                                digest_of = Some ''sha256:86e0e091d0da6bde2456dbb48306f3956bbeb2eae1b5b9a43045843f69fe4aaa''\<rparr>) \<and>
   Digest (remoteCanonicalRef \<lparr>Name = ''busybox'', tag_of = None,
                                digest_of = Some ''sha256:86e0e091d0da6bde2456dbb48306f3956bbeb2eae1b5b9a43045843f69fe4aaa''\<rparr>)
     = Some ''sha256:86e0e091d0da6bde2456dbb48306f3956bbeb2eae1b5b9a43045843f69fe4aaa''"
proof -
  let ?E = "specEnv 255 128"
  let ?nm = "\<lparr>Name = ''busybox'', tag_of = Some ''latest'',
              digest_of = Some ''sha256:86e0e091d0da6bde2456dbb48306f3956bbeb2eae1b5b9a43045843f69fe4aaa''\<rparr>"
  let ?c = "\<lparr>Name = ''busybox'', tag_of = None, digest_of = Some ''sha256:86e0e091d0da6bde2456dbb48306f3956bbeb2eae1b5b9a43045843f69fe4aaa''\<rparr>"
  have parse: "ParseNamed ?E ''busybox:latest@sha256:86e0e091d0da6bde2456dbb48306f3956bbeb2eae1b5b9a43045843f69fe4aaa'' = Inr ?nm"
    by (simp add: specEnv_def specParseNamed_def cut_def validateNameGrammar_def isLowerAlnum_def
        validateTagGrammar_def isWordChar_def validateDigest_def isHexChar_def)
  have split: "splitHostname ''busybox'' = (''docker.io'', ''library/busybox'')"
    using splitHostname_no_slash [of "''busybox''"] by simp
  have norm: "normalize_name ?E ''busybox'' = Inr ''busybox''"
    using split by (simp add: normalize_name_def ToLower_def isASCII_def lowerASCII_def
        DefaultHostname_def DefaultRepoPrefix_def HasPrefix_def TrimPrefix_def)
  have name: "WithRemoteName ?E ''busybox''
      = Inr (remoteNamedRef \<lparr>Name = ''busybox'', tag_of = None, digest_of = None\<rparr>)"
    using norm by (simp add: WithRemoteName_def validateName_def ValidateHex_def specEnv_def
        specWithName_def validateNameGrammar_def isLowerAlnum_def)
  have dig: "WithDigest ?E (asNamed (remoteNamedRef \<lparr>Name = ''busybox'', tag_of = None,
      digest_of = None\<rparr>)) ''sha256:86e0e091d0da6bde2456dbb48306f3956bbeb2eae1b5b9a43045843f69fe4aaa'' = Inr ?c"
    by (simp add: specEnv_def specWithDigest_def validateDigest_def isLowerAlnum_def isHexChar_def)
  have r: "ParseRemoteNamed ?E ''busybox:latest@sha256:86e0e091d0da6bde2456dbb48306f3956bbeb2eae1b5b9a43045843f69fe4aaa''
             = Inr (remoteCanonicalRef ?c) \<and>
           Digest (remoteCanonicalRef ?c) = Some ''sha256:86e0e091d0da6bde2456dbb48306f3956bbeb2eae1b5b9a43045843f69fe4aaa''"
    using ParseRemoteNamed_digest_wins [of ?E "''busybox:latest@sha256:86e0e091d0da6bde2456dbb48306f3956bbeb2eae1b5b9a43045843f69fe4aaa''" ?nm
        "''latest''" "''sha256:86e0e091d0da6bde2456dbb48306f3956bbeb2eae1b5b9a43045843f69fe4aaa''"
        "remoteNamedRef \<lparr>Name = ''busybox'', tag_of = None, digest_of = None\<rparr>" ?c]
      parse name dig
    by simp
  show ?thesis
    using parse name r by (intro conjI) simp_all
qed

text \<open>
  Claim C8, as stated, fails: the name \<^verbatim>\<open>docker/Docker\<close> is refused by \<^verbatim>\<open>ParseNamed\<close> for its
  uppercase component, and \<^verbatim>\<open>ParseRemoteNamed\<close> returns its own error, built from the input
  string, in place of that reason.
\<close>

theorem ParseRemoteNamed_error_not_propagated:
  "ParseNamed (specEnv 255 128) ''docker/Docker'' = Inl InvalidNameComponent \<and>
   ParseRemoteNamed (specEnv 255 128) ''docker/Docker''
     = Inl (ErrParsingReference ''docker/Docker'') \<and>
   ParseRemoteNamed (specEnv 255 128) ''docker/Docker'' \<noteq> Inl InvalidNameComponent"
proof -
  have p: "ParseNamed (specEnv 255 128) ''docker/Docker'' = Inl InvalidNameComponent"
    by (simp add: specEnv_def specParseNamed_def cut_def validateNameGrammar_def isLowerAlnum_def)
  then show ?thesis
    by (simp add: ParseRemoteNamed_def)
qed

text \<open>
  Claim C8, amended. When \<^verbatim>\<open>ParseNamed\<close> fails, whatever its error, \<^verbatim>\<open>ParseRemoteNamed\<close>
  returns \<^verbatim>\<open>Error parsing reference: "s" is not a valid repository/tag\<close>, which depends on
  the input \<open>s\<close> alone. Every later error is returned unchanged: that of \<^verbatim>\<open>WithRemoteName\<close>
  (which itself returns the error of \<^verbatim>\<open>normalize\<close>, of \<^verbatim>\<open>validateName\<close> or of \<^verbatim>\<open>WithName\<close>
  unchanged), of \<^verbatim>\<open>WithDigest\<close> and of \<^verbatim>\<open>WithTag\<close>.
\<close>

theorem ParseRemoteNamed_errors:
  "(ParseNamed E s = Inl e \<longrightarrow> ParseRemoteNamed E s = Inl (ErrParsingReference s)) \<and>
   (ParseNamed E s = Inr nm \<and> WithRemoteName E (Name nm) = Inl e \<longrightarrow>
      ParseRemoteNamed E s = Inl e) \<and>
   (normalize_name E name = Inl e \<longrightarrow> WithRemoteName E name = Inl e) \<and>
   (normalize_name E name = Inr name' \<and> validateName name' = Some e \<longrightarrow>
      WithRemoteName E name = Inl e) \<and>
   (normalize_name E name = Inr name' \<and> validateName name' = None \<and> WithName E name' = Inl e \<longrightarrow>
      WithRemoteName E name = Inl e) \<and>
   (ParseNamed E s = Inr nm \<and> WithRemoteName E (Name nm) = Inr r \<and> digest_of nm = Some d \<and>
      WithDigest E (asNamed r) d = Inl e \<longrightarrow> ParseRemoteNamed E s = Inl e) \<and>
   (ParseNamed E s = Inr nm \<and> WithRemoteName E (Name nm) = Inr r \<and> digest_of nm = None \<and>
      tag_of nm = Some t \<and> WithTag E (asNamed r) t = Inl e \<longrightarrow> ParseRemoteNamed E s = Inl e)"
  by (simp add: ParseRemoteNamed_def WithRemoteName_def WithRemoteDigest_def WithRemoteTag_def)

theorem ParseRemoteNamed_errors_witness:
  "ParseNamed (specEnv 255 128) ''-docker'' = Inl InvalidNameComponent \<and>
   ParseRemoteNamed (specEnv 255 128) ''-docker'' = Inl (ErrParsingReference ''-docker'') \<and>
   normalize_name (specEnv 255 128) ''Docker'' = Inl ErrNotLowercase \<and>
   WithRemoteName (specEnv 255 128) ''Docker'' = Inl ErrNotLowercase \<and>
   normalize_name (specEnv 255 128) ''-foo'' = Inr ''-foo'' \<and>
   validateName ''-foo'' = None \<and>
   WithName (specEnv 255 128) ''-foo'' = Inl InvalidNameComponent \<and>
   WithRemoteName (specEnv 255 128) ''-foo'' = Inl InvalidNameComponent"
proof -
  let ?E = "specEnv 255 128"
  have p: "ParseNamed ?E ''-docker'' = Inl InvalidNameComponent"
    by (simp add: specEnv_def specParseNamed_def cut_def validateNameGrammar_def isLowerAlnum_def)
  have s1: "splitHostname ''Docker'' = (''docker.io'', ''library/Docker'')"
    using splitHostname_no_slash [of "''Docker''"] by simp
  have n1: "normalize_name ?E ''Docker'' = Inl ErrNotLowercase"
    using s1 by (simp add: normalize_name_def ToLower_def isASCII_def lowerASCII_def)
  have s2: "splitHostname ''-foo'' = (''docker.io'', ''library/-foo'')"
    using splitHostname_no_slash [of "''-foo''"] by simp
  have n2: "normalize_name ?E ''-foo'' = Inr ''-foo''"
    using s2 by (simp add: normalize_name_def ToLower_def isASCII_def lowerASCII_def
        DefaultHostname_def DefaultRepoPrefix_def HasPrefix_def TrimPrefix_def)
  have v: "validateName ''-foo'' = None"
    by (simp add: validateName_def ValidateHex_def)
  have w: "WithName ?E ''-foo'' = Inl InvalidNameComponent"
    by (simp add: specEnv_def specWithName_def validateNameGrammar_def isLowerAlnum_def)
  show ?thesis
    using ParseRemoteNamed_errors [of ?E "''-docker''" InvalidNameComponent "\<lparr>Name = ''x'', tag_of = None, digest_of = None\<rparr>" "''Docker''"]
      ParseRemoteNamed_errors [of ?E "''-docker''" ErrNotLowercase "\<lparr>Name = ''x'', tag_of = None, digest_of = None\<rparr>" "''Docker''"]
      ParseRemoteNamed_errors [of ?E "''-docker''" InvalidNameComponent "\<lparr>Name = ''x'', tag_of = None, digest_of = None\<rparr>" "''-foo''" "''-foo''"]
      p n1 n2 v w
    by simp
qed

section \<open>Names that start with a default prefix twice\<close>

lemma lower_literals:
  "ToLower U ''library/library/c'' = ''library/library/c''"
  "ToLower U ''library/c'' = ''library/c''"
  "ToLower U ''docker.io/c'' = ''docker.io/c''"
  "ToLower U ''library/library/a/b'' = ''library/library/a/b''"
  "ToLower U ''library/a/b'' = ''library/a/b''"
  "ToLower U ''a/b'' = ''a/b''"
  by (simp_all add: ToLower_def isASCII_def lowerASCII_def)

lemma split_literals:
  "splitHostname ''library/library/c'' = (''docker.io'', ''library/library/c'')"
  "splitHostname ''library/c'' = (''docker.io'', ''library/c'')"
  "splitHostname ''c'' = (''docker.io'', ''library/c'')"
  "splitHostname ''docker.io/docker.io/c'' = (''docker.io'', ''docker.io/c'')"
  "splitHostname ''docker.io/c'' = (''docker.io'', ''library/c'')"
  "splitHostname ''library/library/a/b'' = (''docker.io'', ''library/library/a/b'')"
  "splitHostname ''docker.io/library/library/a/b'' = (''docker.io'', ''library/library/a/b'')"
  "splitHostname ''index.docker.io/library/library/a/b'' = (''docker.io'', ''library/library/a/b'')"
  "splitHostname ''library/a/b'' = (''docker.io'', ''library/a/b'')"
  "splitHostname ''docker.io/library/a/b'' = (''docker.io'', ''library/a/b'')"
  "splitHostname ''a/b'' = (''docker.io'', ''a/b'')"
  using splitHostname_slash [of "''library''" "''library/c''"]
    splitHostname_slash [of "''library''" "''c''"]
    splitHostname_no_slash [of "''c''"]
    splitHostname_slash [of "''docker.io''" "''docker.io/c''"]
    splitHostname_slash [of "''docker.io''" "''c''"]
    splitHostname_slash [of "''library''" "''library/a/b''"]
    splitHostname_slash [of "''docker.io''" "''library/library/a/b''"]
    splitHostname_slash [of "''index.docker.io''" "''library/library/a/b''"]
    splitHostname_slash [of "''library''" "''a/b''"]
    splitHostname_slash [of "''docker.io''" "''library/a/b''"]
    splitHostname_slash [of "''a''" "''b''"]
  by simp_all

lemma normalize_literals:
  "normalize_name E ''library/library/c'' = Inr ''library/c''"
  "normalize_name E ''library/c'' = Inr ''c''"
  "normalize_name E ''docker.io/docker.io/c'' = Inr ''docker.io/c''"
  "normalize_name E ''docker.io/c'' = Inr ''c''"
  "normalize_name E ''library/library/a/b'' = Inr ''library/a/b''"
  "normalize_name E ''docker.io/library/library/a/b'' = Inr ''library/a/b''"
  "normalize_name E ''index.docker.io/library/library/a/b'' = Inr ''library/a/b''"
  "normalize_name E ''library/a/b'' = Inr ''a/b''"
  "normalize_name E ''docker.io/library/a/b'' = Inr ''a/b''"
  by (simp_all add: normalize_name_def split_literals lower_literals DefaultHostname_def
      DefaultRepoPrefix_def HasPrefix_def TrimPrefix_def)

text \<open>
  Claim C4 fails on the code. \<^verbatim>\<open>normalize\<close> removes one default hostname and one prefix
  \<^verbatim>\<open>library/\<close>, whatever follows them, while \<^verbatim>\<open>splitHostname\<close> reads its result again from
  the start: the normal form of \<^verbatim>\<open>library/library/c\<close> is \<^verbatim>\<open>library/c\<close>, whose normal form is
  \<^verbatim>\<open>c\<close>, and the normal form of \<^verbatim>\<open>docker.io/docker.io/c\<close> still starts with the default
  hostname.
\<close>

theorem normalize_name_not_idempotent:
  "normalize_name E ''library/library/c'' = Inr ''library/c'' \<and>
   normalize_name E ''library/c'' = Inr ''c'' \<and>
   normalize_name E ''docker.io/docker.io/c'' = Inr ''docker.io/c'' \<and>
   normalize_name E ''docker.io/c'' = Inr ''c''"
  by (simp add: normalize_literals)

lemma specWithName_literals:
  "WithName (specEnv 255 128) ''a/b'' = Inr \<lparr>Name = ''a/b'', tag_of = None, digest_of = None\<rparr>"
  "WithName (specEnv 255 128) ''library/a/b''
     = Inr \<lparr>Name = ''library/a/b'', tag_of = None, digest_of = None\<rparr>"
  by (simp_all add: specEnv_def specWithName_def validateNameGrammar_def isLowerAlnum_def)

lemma validateName_literals:
  "validateName ''a/b'' = None" "validateName ''library/a/b'' = None"
  by (simp_all add: validateName_def ValidateHex_def)

lemma WithRemoteName_literals:
  "WithRemoteName (specEnv 255 128) ''library/a/b''
     = Inr (remoteNamedRef \<lparr>Name = ''a/b'', tag_of = None, digest_of = None\<rparr>)"
  "WithRemoteName (specEnv 255 128) ''docker.io/library/a/b''
     = Inr (remoteNamedRef \<lparr>Name = ''a/b'', tag_of = None, digest_of = None\<rparr>)"
  "WithRemoteName (specEnv 255 128) ''library/library/a/b''
     = Inr (remoteNamedRef \<lparr>Name = ''library/a/b'', tag_of = None, digest_of = None\<rparr>)"
  "WithRemoteName (specEnv 255 128) ''docker.io/library/library/a/b''
     = Inr (remoteNamedRef \<lparr>Name = ''library/a/b'', tag_of = None, digest_of = None\<rparr>)"
  "WithRemoteName (specEnv 255 128) ''index.docker.io/library/library/a/b''
     = Inr (remoteNamedRef \<lparr>Name = ''library/a/b'', tag_of = None, digest_of = None\<rparr>)"
  by (simp_all add: WithRemoteName_def normalize_literals validateName_literals
      specWithName_literals)

lemma accessors_literals:
  "FullName (remoteNamedRef \<lparr>Name = ''a/b'', tag_of = None, digest_of = None\<rparr>) = ''docker.io/a/b''"
  "RemoteName (remoteNamedRef \<lparr>Name = ''a/b'', tag_of = None, digest_of = None\<rparr>) = ''a/b''"
  "Hostname (remoteNamedRef \<lparr>Name = ''a/b'', tag_of = None, digest_of = None\<rparr>) = ''docker.io''"
  "FullName (remoteNamedRef \<lparr>Name = ''library/a/b'', tag_of = None, digest_of = None\<rparr>)
     = ''docker.io/library/a/b''"
  "RemoteName (remoteNamedRef \<lparr>Name = ''library/a/b'', tag_of = None, digest_of = None\<rparr>)
     = ''library/a/b''"
  "Hostname (remoteNamedRef \<lparr>Name = ''library/a/b'', tag_of = None, digest_of = None\<rparr>)
     = ''docker.io''"
  by (simp_all add: FullName_def RemoteName_def Hostname_def RefName_def split_literals)

text \<open>
  Claim C1 fails on the code for the remote name \<^verbatim>\<open>library/library/a/b\<close>: its minimal
  spelling \<^verbatim>\<open>library/a/b\<close> gives a reference named \<^verbatim>\<open>a/b\<close>, its fully-qualified and
  legacy spellings give one named \<^verbatim>\<open>library/a/b\<close>, and the full names and remote names
  differ with them.
\<close>

theorem spellings_disagree:
  "WithRemoteName (specEnv 255 128) ''library/a/b''
     = Inr (remoteNamedRef \<lparr>Name = ''a/b'', tag_of = None, digest_of = None\<rparr>) \<and>
   WithRemoteName (specEnv 255 128) ''docker.io/library/library/a/b''
     = Inr (remoteNamedRef \<lparr>Name = ''library/a/b'', tag_of = None, digest_of = None\<rparr>) \<and>
   WithRemoteName (specEnv 255 128) ''index.docker.io/library/library/a/b''
     = Inr (remoteNamedRef \<lparr>Name = ''library/a/b'', tag_of = None, digest_of = None\<rparr>) \<and>
   RefName (remoteNamedRef \<lparr>Name = ''a/b'', tag_of = None, digest_of = None\<rparr>) = ''a/b'' \<and>
   FullName (remoteNamedRef \<lparr>Name = ''a/b'', tag_of = None, digest_of = None\<rparr>)
     = ''docker.io/a/b'' \<and>
   RemoteName (remoteNamedRef \<lparr>Name = ''a/b'', tag_of = None, digest_of = None\<rparr>) = ''a/b'' \<and>
   RefName (remoteNamedRef \<lparr>Name = ''library/a/b'', tag_of = None, digest_of = None\<rparr>)
     = ''library/a/b'' \<and>
   FullName (remoteNamedRef \<lparr>Name = ''library/a/b'', tag_of = None, digest_of = None\<rparr>)
     = ''docker.io/library/a/b'' \<and>
   RemoteName (remoteNamedRef \<lparr>Name = ''library/a/b'', tag_of = None, digest_of = None\<rparr>)
     = ''library/a/b''"
  by (simp add: WithRemoteName_literals accessors_literals RefName_def)

lemma specParseNamed_literals:
  "ParseNamed (specEnv 255 128) ''library/library/a/b''
     = Inr \<lparr>Name = ''library/library/a/b'', tag_of = None, digest_of = None\<rparr>"
  "ParseNamed (specEnv 255 128) ''docker.io/library/a/b''
     = Inr \<lparr>Name = ''docker.io/library/a/b'', tag_of = None, digest_of = None\<rparr>"
  by (simp_all add: specEnv_def specParseNamed_def cut_def validateNameGrammar_def
      isLowerAlnum_def)

text \<open>
  Claim C7 fails on the code for the input \<^verbatim>\<open>library/library/a/b\<close>: the parsed reference
  has the full name \<^verbatim>\<open>docker.io/library/a/b\<close>, and parsing that full name gives a
  reference whose full name is \<^verbatim>\<open>docker.io/a/b\<close>.
\<close>

theorem FullName_reparse_differs:
  "ParseRemoteNamed (specEnv 255 128) ''library/library/a/b''
     = Inr (remoteNamedRef \<lparr>Name = ''library/a/b'', tag_of = None, digest_of = None\<rparr>) \<and>
   FullName (remoteNamedRef \<lparr>Name = ''library/a/b'', tag_of = None, digest_of = None\<rparr>)
     = ''docker.io/library/a/b'' \<and>
   ParseRemoteNamed (specEnv 255 128) ''docker.io/library/a/b''
     = Inr (remoteNamedRef \<lparr>Name = ''a/b'', tag_of = None, digest_of = None\<rparr>) \<and>
   FullName (remoteNamedRef \<lparr>Name = ''a/b'', tag_of = None, digest_of = None\<rparr>)
     = ''docker.io/a/b''"
  by (simp add: ParseRemoteNamed_def specParseNamed_literals WithRemoteName_literals
      accessors_literals)

section \<open>Where the equivalence of spellings holds\<close>

text \<open>
  The legacy hostname is folded for every repository path \<open>R\<close>: the spellings
  \<^verbatim>\<open>index.docker.io/R\<close> and \<^verbatim>\<open>docker.io/R\<close> are split, normalized and constructed alike, and
  \<^verbatim>\<open>splitHostname\<close> never returns the hostname \<^verbatim>\<open>index.docker.io\<close>.
\<close>

theorem legacy_hostname_folded:
  "splitHostname (''index.docker.io/'' @ R) = splitHostname (''docker.io/'' @ R) \<and>
   normalize_name E (''index.docker.io/'' @ R) = normalize_name E (''docker.io/'' @ R) \<and>
   WithRemoteName E (''index.docker.io/'' @ R) = WithRemoteName E (''docker.io/'' @ R) \<and>
   fst (splitHostname name) \<noteq> ''index.docker.io''"
proof -
  have a: "splitHostname (''index.docker.io/'' @ R)
      = (''docker.io'', if CHR ''/'' \<in> set R then R else ''library/'' @ R)"
    using splitHostname_slash [of "''index.docker.io''" R] by simp
  have b: "splitHostname (''docker.io/'' @ R)
      = (''docker.io'', if CHR ''/'' \<in> set R then R else ''library/'' @ R)"
    using splitHostname_slash [of "''docker.io''" R] by simp
  have s: "splitHostname (''index.docker.io/'' @ R) = splitHostname (''docker.io/'' @ R)"
    by (simp only: a b)
  have n: "normalize_name E (''index.docker.io/'' @ R) = normalize_name E (''docker.io/'' @ R)"
    using a b by (simp add: normalize_name_def DefaultHostname_def)
  then have w: "WithRemoteName E (''index.docker.io/'' @ R) = WithRemoteName E (''docker.io/'' @ R)"
    by (simp add: WithRemoteName_def)
  have f: "fst (splitHostname name) \<noteq> ''index.docker.io''"
    by (simp add: splitHostname_def Let_def split_def DefaultHostname_def LegacyDefaultHostname_def)
  from s n w f show ?thesis by simp
qed

text \<open>
  On the default hostname the repository path that \<^verbatim>\<open>splitHostname\<close> returns always has a
  namespace: it contains a \<^verbatim>\<open>/\<close>.
\<close>

theorem default_host_path_has_namespace:
  "fst (splitHostname name) = ''docker.io'' \<longrightarrow> CHR ''/'' \<in> set (snd (splitHostname name))"
  by (simp add: splitHostname_def Let_def split_def DefaultHostname_def LegacyDefaultHostname_def
      DefaultRepoPrefix_def ContainsRune_def)

theorem default_host_path_has_namespace_witness:
  "fst (splitHostname ''ubuntu'') = ''docker.io'' \<and>
   snd (splitHostname ''ubuntu'') = ''library/ubuntu'' \<and>
   CHR ''/'' \<in> set (snd (splitHostname ''ubuntu''))"
  using default_host_path_has_namespace [of "''ubuntu''"] splitHostname_no_slash [of "''ubuntu''"]
  by simp

text \<open>
  \<^verbatim>\<open>FullName()\<close> is \<^verbatim>\<open>Hostname()\<close>, a \<^verbatim>\<open>/\<close> and \<^verbatim>\<open>RemoteName()\<close>.
\<close>

theorem FullName_composed:
  "FullName r = Hostname r @ ''/'' @ RemoteName r"
  by (simp add: FullName_def Hostname_def RemoteName_def split_def Let_def)

text \<open>
  \<^verbatim>\<open>IsRemoteNameOnly\<close> holds exactly of a \<^verbatim>\<open>remoteNamedRef\<close>. \<^verbatim>\<open>WithDefaultRemoteTag\<close> returns a
  reference that carries a tag or a digest as it is; a result that is not \<^verbatim>\<open>nil\<close> is
  returned unchanged by a second call; a name-only reference gets the tag \<^verbatim>\<open>latest\<close> through
  \<^verbatim>\<open>WithTag\<close>, and when \<^verbatim>\<open>WithTag\<close> refuses that tag the result is \<^verbatim>\<open>nil\<close>.
\<close>

theorem WithDefaultRemoteTag_idempotent:
  "(IsRemoteNameOnly ref = (\<exists>n. ref = remoteNamedRef n)) \<and>
   (\<not> IsRemoteNameOnly ref \<longrightarrow> WithDefaultRemoteTag E ref = Some ref) \<and>
   (\<forall>r. WithDefaultRemoteTag E ref = Some r \<longrightarrow>
      \<not> IsRemoteNameOnly r \<and> WithDefaultRemoteTag E r = Some r) \<and>
   (\<forall>n t. WithTag E (asNamed (remoteNamedRef n)) DefaultTag = Inr t \<longrightarrow>
      WithDefaultRemoteTag E (remoteNamedRef n) = Some (remoteTaggedRef t)) \<and>
   (\<forall>n e. WithTag E (asNamed (remoteNamedRef n)) DefaultTag = Inl e \<longrightarrow>
      WithDefaultRemoteTag E (remoteNamedRef n) = None)"
  by (cases ref)
    (auto simp: IsRemoteNameOnly_def WithDefaultRemoteTag_def WithRemoteTag_def split: sum.splits)

theorem WithDefaultRemoteTag_idempotent_witness:
  "IsRemoteNameOnly (remoteNamedRef \<lparr>Name = ''busybox'', tag_of = None, digest_of = None\<rparr>) \<and>
   WithDefaultRemoteTag (specEnv 255 128)
       (remoteNamedRef \<lparr>Name = ''busybox'', tag_of = None, digest_of = None\<rparr>)
     = Some (remoteTaggedRef \<lparr>Name = ''busybox'', tag_of = Some ''latest'', digest_of = None\<rparr>) \<and>
   WithDefaultRemoteTag (specEnv 255 128)
       (remoteTaggedRef \<lparr>Name = ''busybox'', tag_of = Some ''latest'', digest_of = None\<rparr>)
     = Some (remoteTaggedRef \<lparr>Name = ''busybox'', tag_of = Some ''latest'', digest_of = None\<rparr>)"
proof -
  let ?E = "specEnv 255 128"
  let ?n = "\<lparr>Name = ''busybox'', tag_of = None, digest_of = None\<rparr>"
  let ?t = "\<lparr>Name = ''busybox'', tag_of = Some ''latest'', digest_of = None\<rparr>"
  have w: "WithTag ?E (asNamed (remoteNamedRef ?n)) DefaultTag = Inr ?t"
    by (simp add: specEnv_def specWithTag_def validateTagGrammar_def isWordChar_def DefaultTag_def)
  note r = WithDefaultRemoteTag_idempotent [of "remoteNamedRef ?n" ?E]
  have only: "IsRemoteNameOnly (remoteNamedRef ?n)"
    using r by blast
  have first: "WithDefaultRemoteTag ?E (remoteNamedRef ?n) = Some (remoteTaggedRef ?t)"
    using r w by blast
  then have "WithDefaultRemoteTag ?E (remoteTaggedRef ?t) = Some (remoteTaggedRef ?t)"
    using r by blast
  with only first show ?thesis
    by simp
qed

lemma ToLower_ascii: "list_all isASCII s \<Longrightarrow> ToLower U s = map lowerASCII s"
  by (simp add: ToLower_def)

lemma library_ascii_lower:
  "list_all isASCII ''library/''" "map lowerASCII ''library/'' = ''library/''"
  by (simp_all add: isASCII_def lowerASCII_def)

lemma ToLower_library_ascii:
  assumes "list_all isASCII s"
  shows "(ToLower U (''library/'' @ s) = ''library/'' @ s) = (map lowerASCII s = s)"
proof -
  have "list_all isASCII (''library/'' @ s)"
    using assms library_ascii_lower(1) by simp
  then have "ToLower U (''library/'' @ s) = map lowerASCII ''library/'' @ map lowerASCII s"
    by (simp only: ToLower_ascii map_append)
  then show ?thesis
    by (simp only: library_ascii_lower(2) same_append_eq)
qed

lemma first_component:
  assumes "c \<notin> set h"
  shows "takeWhile (\<lambda>x. x \<noteq> c) (h @ c # r) = h"
  using assms by (induction h) auto

lemma prefix_first_component:
  assumes "CHR ''/'' \<notin> set h" and "CHR ''/'' \<notin> set p" and "prefix (p @ ''/'') (h @ CHR ''/'' # r)"
  shows "p = h"
proof -
  from assms(3) obtain zs where "h @ CHR ''/'' # r = p @ CHR ''/'' # zs"
    by (auto simp: prefix_def)
  then have "takeWhile (\<lambda>x. x \<noteq> CHR ''/'') (h @ CHR ''/'' # r)
      = takeWhile (\<lambda>x. x \<noteq> CHR ''/'') (p @ CHR ''/'' # zs)"
    by simp
  then show ?thesis
    using first_component [OF assms(1), of r] first_component [OF assms(2), of zs] by simp
qed

lemma first_slash:
  assumes "CHR ''/'' \<in> set x"
  shows "\<exists>h r. x = h @ CHR ''/'' # r \<and> CHR ''/'' \<notin> set h"
  using assms by (metis split_list_first)

lemma normalize_name_no_slash:
  assumes "CHR ''/'' \<notin> set x"
  shows "normalize_name E x =
    (if ToLower (unicodeToLower E) (''library/'' @ x) \<noteq> ''library/'' @ x
     then Inl ErrNotLowercase else Inr x)"
  using splitHostname_no_slash [OF assms] TrimPrefix_append [of "''library/''" x]
  by (simp add: normalize_name_def DefaultHostname_def DefaultRepoPrefix_def HasPrefix_def)

lemma normalize_name_plain:
  assumes "CHR ''/'' \<notin> set h"
    and "\<not> (CHR ''.'' \<in> set h \<or> CHR '':'' \<in> set h \<or> h = ''localhost'')"
  shows "normalize_name E (h @ CHR ''/'' # r) =
    (if ToLower (unicodeToLower E) (h @ CHR ''/'' # r) \<noteq> h @ CHR ''/'' # r
     then Inl ErrNotLowercase else Inr (TrimPrefix (h @ CHR ''/'' # r) ''library/''))"
  using splitHostname_slash [OF assms(1), of r] assms(2)
  by (simp add: normalize_name_def DefaultHostname_def DefaultRepoPrefix_def TrimPrefix_def)

lemma normalize_name_other_host:
  assumes "CHR ''/'' \<notin> set h"
    and "CHR ''.'' \<in> set h \<or> CHR '':'' \<in> set h \<or> h = ''localhost''"
    and "h \<noteq> ''docker.io''" and "h \<noteq> ''index.docker.io''"
  shows "normalize_name E (h @ CHR ''/'' # r) =
    (if ToLower (unicodeToLower E) r \<noteq> r then Inl ErrNotLowercase else Inr (h @ CHR ''/'' # r))"
  using splitHostname_slash [OF assms(1), of r] assms(2,3,4)
  by (simp add: normalize_name_def DefaultHostname_def)

lemma normalize_name_default_host:
  assumes "h = ''docker.io'' \<or> h = ''index.docker.io''"
  shows "normalize_name E (h @ CHR ''/'' # r) =
    (if CHR ''/'' \<in> set r
     then (if ToLower (unicodeToLower E) r \<noteq> r then Inl ErrNotLowercase
           else Inr (TrimPrefix r ''library/''))
     else (if ToLower (unicodeToLower E) (''library/'' @ r) \<noteq> ''library/'' @ r
           then Inl ErrNotLowercase else Inr r))"
proof -
  have "CHR ''/'' \<notin> set h"
    using assms by auto
  from splitHostname_slash [OF this, of r] assms
  have "splitHostname (h @ CHR ''/'' # r)
      = (''docker.io'', if CHR ''/'' \<in> set r then r else ''library/'' @ r)"
    by auto
  then show ?thesis
    using TrimPrefix_append [of "''library/''" r]
    by (simp add: normalize_name_def DefaultHostname_def DefaultRepoPrefix_def
        TrimPrefix_def HasPrefix_def)
qed

lemma TrimPrefix_fixed: "(TrimPrefix s ''library/'' = s) = (\<not> prefix ''library/'' s)"
proof (cases "prefix ''library/'' s")
  case True
  then have "length (drop (length ''library/'') s) < length s"
    by (auto simp: prefix_def)
  then have "drop (length ''library/'') s \<noteq> s"
    by (metis less_irrefl)
  with True show ?thesis
    by (simp add: TrimPrefix_def HasPrefix_iff)
next
  case False
  then show ?thesis
    by (simp add: TrimPrefix_def HasPrefix_iff)
qed

lemma TrimPrefix_length: "length (TrimPrefix s p) \<le> length s"
  by (simp add: TrimPrefix_def)

lemma TrimPrefix_lower:
  assumes "list_all isASCII s" and "map lowerASCII s = s"
  shows "list_all isASCII (TrimPrefix s p) \<and> map lowerASCII (TrimPrefix s p) = TrimPrefix s p"
proof -
  have "list_all isASCII (drop n s)" for n
    using assms(1) by (auto simp: list_all_iff dest: in_set_dropD)
  moreover have "map lowerASCII (drop n s) = drop n s" for n
    using assms(2) by (metis drop_map)
  ultimately show ?thesis
    using assms by (simp add: TrimPrefix_def)
qed

lemma other_host_no_default_prefix:
  assumes "CHR ''/'' \<notin> set h"
    and "CHR ''.'' \<in> set h \<or> CHR '':'' \<in> set h \<or> h = ''localhost''"
    and "h \<noteq> ''docker.io''" and "h \<noteq> ''index.docker.io''"
  shows "\<not> prefix ''library/'' (h @ CHR ''/'' # r) \<and> \<not> prefix ''docker.io/'' (h @ CHR ''/'' # r)
         \<and> \<not> prefix ''index.docker.io/'' (h @ CHR ''/'' # r)"
proof -
  have "h \<noteq> ''library''"
    using assms(2) by auto
  then have "\<not> prefix (''library'' @ ''/'') (h @ CHR ''/'' # r)"
    using prefix_first_component [OF assms(1), of "''library''" r] by auto
  moreover have "\<not> prefix (''docker.io'' @ ''/'') (h @ CHR ''/'' # r)"
    using prefix_first_component [OF assms(1), of "''docker.io''" r] assms(3) by auto
  moreover have "\<not> prefix (''index.docker.io'' @ ''/'') (h @ CHR ''/'' # r)"
    using prefix_first_component [OF assms(1), of "''index.docker.io''" r] assms(4) by auto
  ultimately show ?thesis
    by simp
qed

lemma plain_no_host_prefix:
  assumes "CHR ''/'' \<notin> set h"
    and "\<not> (CHR ''.'' \<in> set h \<or> CHR '':'' \<in> set h \<or> h = ''localhost'')"
  shows "\<not> prefix ''docker.io/'' (h @ CHR ''/'' # r)
         \<and> \<not> prefix ''index.docker.io/'' (h @ CHR ''/'' # r)"
proof -
  have "h \<noteq> ''docker.io''" and "h \<noteq> ''index.docker.io''"
    using assms(2) by auto
  then have "\<not> prefix (''docker.io'' @ ''/'') (h @ CHR ''/'' # r)"
    and "\<not> prefix (''index.docker.io'' @ ''/'') (h @ CHR ''/'' # r)"
    using prefix_first_component [OF assms(1), of "''docker.io''" r]
      prefix_first_component [OF assms(1), of "''index.docker.io''" r] by auto
  then show ?thesis
    by simp
qed

lemma normal_form_fixed:
  assumes a: "list_all isASCII y" and l: "map lowerASCII y = y"
  shows "(\<exists>z. normalize_name E y = Inr z) \<and>
         ((normalize_name E y = Inr y) =
          (\<not> prefix ''library/'' y \<and> \<not> prefix ''docker.io/'' y \<and> \<not> prefix ''index.docker.io/'' y))"
proof (cases "CHR ''/'' \<in> set y")
  case False
  have n: "normalize_name E y = Inr y"
    using ToLower_library_ascii [OF a, of "unicodeToLower E"] l
    by (simp add: normalize_name_no_slash [OF False])
  have "\<not> prefix p y" if "CHR ''/'' \<in> set p" for p
    using that False set_mono_prefix by fastforce
  then have "\<not> prefix ''library/'' y \<and> \<not> prefix ''docker.io/'' y
      \<and> \<not> prefix ''index.docker.io/'' y"
    by simp
  with n show ?thesis
    by simp
next
  case True
  then obtain h r where y: "y = h @ CHR ''/'' # r" and h: "CHR ''/'' \<notin> set h"
    using first_slash by blast
  have ar: "list_all isASCII r" and lr: "map lowerASCII r = r"
    using a l by (simp_all add: y)
  have ly: "ToLower (unicodeToLower E) y = y"
    using a l by (simp add: ToLower_ascii)
  have lowr: "ToLower (unicodeToLower E) r = r"
    using ar lr by (simp add: ToLower_ascii)
  have lowlr: "ToLower (unicodeToLower E) (''library/'' @ r) = ''library/'' @ r"
    using ToLower_library_ascii [OF ar] lr by simp
  consider (plain) "\<not> (CHR ''.'' \<in> set h \<or> CHR '':'' \<in> set h \<or> h = ''localhost'')"
    | (default) "h = ''docker.io'' \<or> h = ''index.docker.io''"
    | (other) "CHR ''.'' \<in> set h \<or> CHR '':'' \<in> set h \<or> h = ''localhost''"
        "h \<noteq> ''docker.io''" "h \<noteq> ''index.docker.io''"
    by blast
  then show ?thesis
  proof cases
    case plain
    have "normalize_name E y = Inr (TrimPrefix y ''library/'')"
      using normalize_name_plain [OF h plain, of E r] ly by (simp add: y)
    then show ?thesis
      using plain_no_host_prefix [OF h plain, of r] TrimPrefix_fixed [of y] by (simp add: y)
  next
    case default
    let ?z = "if CHR ''/'' \<in> set r then TrimPrefix r ''library/'' else r"
    have n: "normalize_name E y = Inr ?z"
      using normalize_name_default_host [OF default, of E r] lowr lowlr by (simp add: y)
    have "length ?z \<le> length r"
      using TrimPrefix_length [of r "''library/''"] by simp
    then have "?z \<noteq> y"
      by (auto simp: y)
    moreover have "prefix ''docker.io/'' y \<or> prefix ''index.docker.io/'' y"
      using default by (auto simp: y)
    ultimately show ?thesis
      using n by auto
  next
    case other
    have "normalize_name E y = Inr y"
      using normalize_name_other_host [OF h other, of E r] lowr by (simp add: y)
    then show ?thesis
      using other_host_no_default_prefix [OF h other, of r] by (simp add: y)
  qed
qed

text \<open>
  Where \<^verbatim>\<open>normalize\<close> is idempotent. For an ASCII input \<open>x\<close> with normal form \<open>y\<close>,
  normalizing \<open>y\<close> succeeds, and it returns \<open>y\<close> exactly when \<open>y\<close> does not start with
  \<^verbatim>\<open>library/\<close>, \<^verbatim>\<open>docker.io/\<close> or \<^verbatim>\<open>index.docker.io/\<close>.
\<close>

theorem normalize_name_twice:
  assumes ascii: "list_all isASCII x" and norm: "normalize_name E x = Inr y"
  shows "(\<exists>z. normalize_name E y = Inr z) \<and>
         ((normalize_name E y = Inr y) =
          (\<not> prefix ''library/'' y \<and> \<not> prefix ''docker.io/'' y \<and> \<not> prefix ''index.docker.io/'' y))"
proof (cases "CHR ''/'' \<in> set x")
  case False
  from norm have "ToLower (unicodeToLower E) (''library/'' @ x) = ''library/'' @ x" and "y = x"
    using normalize_name_no_slash [OF False, of E] by (auto split: if_splits)
  then have "map lowerASCII y = y" and "list_all isASCII y"
    using ToLower_library_ascii [OF ascii, of "unicodeToLower E"] ascii by simp_all
  then show ?thesis
    using normal_form_fixed by blast
next
  case True
  then obtain h r where x: "x = h @ CHR ''/'' # r" and h: "CHR ''/'' \<notin> set h"
    using first_slash by blast
  have ar: "list_all isASCII r"
    using ascii by (simp add: x)
  consider (plain) "\<not> (CHR ''.'' \<in> set h \<or> CHR '':'' \<in> set h \<or> h = ''localhost'')"
    | (default) "h = ''docker.io'' \<or> h = ''index.docker.io''"
    | (other) "CHR ''.'' \<in> set h \<or> CHR '':'' \<in> set h \<or> h = ''localhost''"
        "h \<noteq> ''docker.io''" "h \<noteq> ''index.docker.io''"
    by blast
  then show ?thesis
  proof cases
    case plain
    from norm have "ToLower (unicodeToLower E) x = x" and y: "y = TrimPrefix x ''library/''"
      using normalize_name_plain [OF h plain, of E r] by (auto simp: x split: if_splits)
    then have "map lowerASCII x = x"
      using ascii by (simp add: ToLower_ascii)
    then have "list_all isASCII y \<and> map lowerASCII y = y"
      using TrimPrefix_lower [OF ascii] by (simp add: y)
    then show ?thesis
      using normal_form_fixed by blast
  next
    case default
    show ?thesis
    proof (cases "CHR ''/'' \<in> set r")
      case True
      from norm have "ToLower (unicodeToLower E) r = r" and y: "y = TrimPrefix r ''library/''"
        using normalize_name_default_host [OF default, of E r] True
        by (auto simp: x split: if_splits)
      then have "map lowerASCII r = r"
        using ar by (simp add: ToLower_ascii)
      then have "list_all isASCII y \<and> map lowerASCII y = y"
        using TrimPrefix_lower [OF ar] by (simp add: y)
      then show ?thesis
        using normal_form_fixed by blast
    next
      case False
      from norm have "ToLower (unicodeToLower E) (''library/'' @ r) = ''library/'' @ r"
        and y: "y = r"
        using normalize_name_default_host [OF default, of E r] False
        by (auto simp: x split: if_splits)
      then have "map lowerASCII r = r"
        using ToLower_library_ascii [OF ar, of "unicodeToLower E"] by simp
      then show ?thesis
        using normal_form_fixed [OF ar] by (simp add: y)
    qed
  next
    case other
    from norm have y: "y = x"
      using normalize_name_other_host [OF h other, of E r] by (auto simp: x split: if_splits)
    then show ?thesis
      using norm other_host_no_default_prefix [OF h other, of r] by (simp add: x)
  qed
qed

theorem normalize_name_twice_witness:
  "list_all isASCII ''docker.io/library/ubuntu'' \<and>
   normalize_name (specEnv 255 128) ''docker.io/library/ubuntu'' = Inr ''ubuntu'' \<and>
   normalize_name (specEnv 255 128) ''ubuntu'' = Inr ''ubuntu'' \<and>
   \<not> prefix ''library/'' ''ubuntu'' \<and> \<not> prefix ''docker.io/'' ''ubuntu'' \<and>
   \<not> prefix ''index.docker.io/'' ''ubuntu''"
proof -
  have a: "list_all isASCII ''docker.io/library/ubuntu''"
    by (simp add: isASCII_def)
  have s: "splitHostname ''docker.io/library/ubuntu'' = (''docker.io'', ''library/ubuntu'')"
    using splitHostname_slash [of "''docker.io''" "''library/ubuntu''"] by simp
  have n: "normalize_name (specEnv 255 128) ''docker.io/library/ubuntu'' = Inr ''ubuntu''"
    using s by (simp add: normalize_name_def ToLower_def isASCII_def lowerASCII_def
        DefaultHostname_def DefaultRepoPrefix_def HasPrefix_def TrimPrefix_def)
  have p: "\<not> prefix ''library/'' ''ubuntu'' \<and> \<not> prefix ''docker.io/'' ''ubuntu'' \<and>
      \<not> prefix ''index.docker.io/'' ''ubuntu''"
    by simp
  show ?thesis
    using normalize_name_twice [OF a n] a n p by simp
qed

text \<open>
  Where the three spellings agree. For a lowercase repository path \<open>R\<close> with a \<^verbatim>\<open>/\<close>, whose
  minimal spelling (\<open>R\<close> without a leading \<^verbatim>\<open>library/\<close>) is its own normal form, the
  fully-qualified and the legacy spelling have that same normal form, so \<^verbatim>\<open>WithRemoteName\<close>
  returns the same result, reference or error, on all three.
\<close>

theorem spellings_agree:
  assumes "CHR ''/'' \<in> set R"
    and "ToLower (unicodeToLower E) R = R"
    and "normalize_name E (TrimPrefix R ''library/'') = Inr (TrimPrefix R ''library/'')"
  shows "normalize_name E (''docker.io/'' @ R) = Inr (TrimPrefix R ''library/'') \<and>
         normalize_name E (''index.docker.io/'' @ R) = Inr (TrimPrefix R ''library/'') \<and>
         WithRemoteName E (''docker.io/'' @ R) = WithRemoteName E (TrimPrefix R ''library/'') \<and>
         WithRemoteName E (''index.docker.io/'' @ R) = WithRemoteName E (TrimPrefix R ''library/'')"
proof -
  have d: "normalize_name E (''docker.io/'' @ R) = Inr (TrimPrefix R ''library/'')"
    using normalize_name_default_host [of "''docker.io''" E R] assms(1,2) by simp
  have i: "normalize_name E (''index.docker.io/'' @ R) = Inr (TrimPrefix R ''library/'')"
    using normalize_name_default_host [of "''index.docker.io''" E R] assms(1,2) by simp
  show ?thesis
    using d i assms(3) by (simp add: WithRemoteName_def)
qed

theorem spellings_agree_witness:
  "CHR ''/'' \<in> set ''library/ubuntu'' \<and>
   TrimPrefix ''library/ubuntu'' ''library/'' = ''ubuntu'' \<and>
   normalize_name (specEnv 255 128) ''ubuntu'' = Inr ''ubuntu'' \<and>
   normalize_name (specEnv 255 128) ''docker.io/library/ubuntu'' = Inr ''ubuntu'' \<and>
   normalize_name (specEnv 255 128) ''index.docker.io/library/ubuntu'' = Inr ''ubuntu'' \<and>
   WithRemoteName (specEnv 255 128) ''docker.io/library/ubuntu''
     = WithRemoteName (specEnv 255 128) ''ubuntu'' \<and>
   WithRemoteName (specEnv 255 128) ''index.docker.io/library/ubuntu''
     = WithRemoteName (specEnv 255 128) ''ubuntu''"
proof -
  have t: "TrimPrefix ''library/ubuntu'' ''library/'' = ''ubuntu''"
    by (simp add: TrimPrefix_def HasPrefix_def)
  have l: "ToLower (unicodeToLower (specEnv 255 128)) ''library/ubuntu'' = ''library/ubuntu''"
    by (simp add: ToLower_def isASCII_def lowerASCII_def)
  have s: "splitHostname ''ubuntu'' = (''docker.io'', ''library/ubuntu'')"
    using splitHostname_no_slash [of "''ubuntu''"] by simp
  have n: "normalize_name (specEnv 255 128) ''ubuntu'' = Inr ''ubuntu''"
    using s l by (simp add: normalize_name_def DefaultHostname_def DefaultRepoPrefix_def
        HasPrefix_def TrimPrefix_def)
  have c: "CHR ''/'' \<in> set ''library/ubuntu''"
    by simp
  show ?thesis
    using spellings_agree [OF c l] t n c by simp
qed

lemma normalize_name_full:
  assumes "normalize_name E n = Inr n"
  shows "normalize_name E (fst (splitHostname n) @ ''/'' @ snd (splitHostname n)) = Inr n"
proof (cases "CHR ''/'' \<in> set n")
  case False
  from assms have low: "ToLower (unicodeToLower E) (''library/'' @ n) = ''library/'' @ n"
    using normalize_name_no_slash [OF False, of E] by (auto split: if_splits)
  have "normalize_name E (''docker.io'' @ CHR ''/'' # ''library/'' @ n) = Inr n"
    using normalize_name_default_host [of "''docker.io''" E "''library/'' @ n"] low
      TrimPrefix_append [of "''library/''" n]
    by simp
  then show ?thesis
    by (simp add: splitHostname_no_slash [OF False])
next
  case True
  then obtain h r where n: "n = h @ CHR ''/'' # r" and h: "CHR ''/'' \<notin> set h"
    using first_slash by blast
  consider (plain) "\<not> (CHR ''.'' \<in> set h \<or> CHR '':'' \<in> set h \<or> h = ''localhost'')"
    | (default) "h = ''docker.io'' \<or> h = ''index.docker.io''"
    | (other) "CHR ''.'' \<in> set h \<or> CHR '':'' \<in> set h \<or> h = ''localhost''"
        "h \<noteq> ''docker.io''" "h \<noteq> ''index.docker.io''"
    by blast
  then show ?thesis
  proof cases
    case plain
    from assms have low: "ToLower (unicodeToLower E) n = n" and t: "TrimPrefix n ''library/'' = n"
      using normalize_name_plain [OF h plain, of E r] by (auto simp: n split: if_splits)
    have "normalize_name E (''docker.io'' @ CHR ''/'' # n) = Inr n"
      using normalize_name_default_host [of "''docker.io''" E n] low t True by simp
    moreover have "splitHostname n = (''docker.io'', n)"
      using splitHostname_slash [OF h, of r] plain by (simp add: n)
    ultimately show ?thesis
      by simp
  next
    case default
    let ?z = "if CHR ''/'' \<in> set r then TrimPrefix r ''library/'' else r"
    from assms have "h @ CHR ''/'' # r = ?z"
      using normalize_name_default_host [OF default, of E r] by (auto simp: n split: if_splits)
    then have "length (h @ CHR ''/'' # r) = length ?z"
      by (rule arg_cong)
    moreover have "length ?z \<le> length r"
      using TrimPrefix_length [of r "''library/''"] by simp
    ultimately have False
      by simp
    then show ?thesis ..
  next
    case other
    have "splitHostname n = (h, r)"
      using splitHostname_slash [OF h, of r] other by (simp add: n)
    then show ?thesis
      using assms by (simp add: n)
  qed
qed

text \<open>
  Where \<^verbatim>\<open>FullName()\<close> is stable. For a reference whose name is its own normal form, the
  normal form of its full name is that name again, and \<^verbatim>\<open>WithRemoteName\<close> of the full name
  is \<^verbatim>\<open>WithRemoteName\<close> of the name.
\<close>

theorem FullName_reparse:
  assumes "normalize_name E (RefName r) = Inr (RefName r)"
  shows "normalize_name E (FullName r) = Inr (RefName r) \<and>
         WithRemoteName E (FullName r) = WithRemoteName E (RefName r)"
proof -
  have "normalize_name E (FullName r) = Inr (RefName r)"
    using normalize_name_full [OF assms] by (simp add: FullName_def split_def Let_def)
  then show ?thesis
    using assms by (simp add: WithRemoteName_def)
qed

theorem FullName_reparse_witness:
  "normalize_name (specEnv 255 128) ''ubuntu'' = Inr ''ubuntu'' \<and>
   FullName (remoteNamedRef \<lparr>Name = ''ubuntu'', tag_of = None, digest_of = None\<rparr>)
     = ''docker.io/library/ubuntu'' \<and>
   normalize_name (specEnv 255 128) ''docker.io/library/ubuntu'' = Inr ''ubuntu''"
proof -
  let ?r = "remoteNamedRef \<lparr>Name = ''ubuntu'', tag_of = None, digest_of = None\<rparr>"
  have s: "splitHostname ''ubuntu'' = (''docker.io'', ''library/ubuntu'')"
    using splitHostname_no_slash [of "''ubuntu''"] by simp
  have n: "normalize_name (specEnv 255 128) ''ubuntu'' = Inr ''ubuntu''"
    using s by (simp add: normalize_name_def ToLower_def isASCII_def lowerASCII_def
        DefaultHostname_def DefaultRepoPrefix_def HasPrefix_def TrimPrefix_def)
  have f: "FullName ?r = ''docker.io/library/ubuntu''"
    using s by (simp add: FullName_def RefName_def)
  have rn: "RefName ?r = ''ubuntu''"
    by (simp add: RefName_def)
  from n rn have "normalize_name (specEnv 255 128) (RefName ?r) = Inr (RefName ?r)"
    by simp
  from FullName_reparse [OF this] show ?thesis
    using n f rn by simp
qed

end
